theory Spec2Isabelle
  imports Complex_Main "HOL-Library.While_Combinator"
begin

section \<open>The quadratic handler of MINOTAUR (src/base/QuadHandler.cpp)\<close>

subsection \<open>Doubles\<close>

text \<open>
  The functions of the handler are translated one by one and keep their names; Isabelle
  does not accept a name that ends in an underscore, so such a name of the source
  (\<^verbatim>\<open>relax_\<close>, \<^verbatim>\<open>p_\<close>) is written with a closing prime (\<open>relax_'\<close>, \<open>p_'\<close>). A failed
  \<^verbatim>\<open>assert\<close> and a null pointer that is followed are results of the sum type \<open>error\<close>; a run
  that does not return is \<open>None\<close>.
\<close>

text \<open>
  A C++ \<^verbatim>\<open>double\<close> is a finite value, one of the two infinities, or NaN. The finite
  values are taken to be the reals and finite arithmetic to be exact: rounding, overflow of
  a finite result to an infinity and the sign of zero are not part of this model. The
  special values follow IEEE 754: NaN is absorbing, \<open>\<infinity> - \<infinity>\<close> and \<open>0 * \<infinity>\<close> are NaN, and
  every comparison with NaN is false.
\<close>

datatype double = NaN | NInf | Fin real | PInf

instantiation double :: "{zero, one, plus, uminus, minus, times, inverse, ord}"
begin

definition zero_double :: double where
  "zero_double = Fin 0"

definition one_double :: double where
  "one_double = Fin 1"

fun plus_double :: "double \<Rightarrow> double \<Rightarrow> double" where
  "plus_double (Fin a) (Fin b) = Fin (a + b)"
| "plus_double NaN b = NaN"
| "plus_double a NaN = NaN"
| "plus_double PInf NInf = NaN"
| "plus_double NInf PInf = NaN"
| "plus_double PInf b = PInf"
| "plus_double a PInf = PInf"
| "plus_double NInf b = NInf"
| "plus_double a NInf = NInf"

fun uminus_double :: "double \<Rightarrow> double" where
  "uminus_double (Fin a) = Fin (- a)"
| "uminus_double NaN = NaN"
| "uminus_double PInf = NInf"
| "uminus_double NInf = PInf"

definition minus_double :: "double \<Rightarrow> double \<Rightarrow> double" where
  "minus_double a b = a + (- b)"

fun sgn_mult :: "bool \<Rightarrow> real \<Rightarrow> double" where
  "sgn_mult pos b =
     (if b = 0 then NaN else if (0 < b) = pos then PInf else NInf)"

fun times_double :: "double \<Rightarrow> double \<Rightarrow> double" where
  "times_double (Fin a) (Fin b) = Fin (a * b)"
| "times_double NaN b = NaN"
| "times_double a NaN = NaN"
| "times_double PInf (Fin b) = sgn_mult True b"
| "times_double NInf (Fin b) = sgn_mult False b"
| "times_double (Fin a) PInf = sgn_mult True a"
| "times_double (Fin a) NInf = sgn_mult False a"
| "times_double PInf PInf = PInf"
| "times_double NInf NInf = PInf"
| "times_double PInf NInf = NInf"
| "times_double NInf PInf = NInf"

fun inverse_double :: "double \<Rightarrow> double" where
  "inverse_double (Fin a) = (if a = 0 then PInf else Fin (inverse a))"
| "inverse_double NaN = NaN"
| "inverse_double PInf = Fin 0"
| "inverse_double NInf = Fin 0"

fun divide_double :: "double \<Rightarrow> double \<Rightarrow> double" where
  "divide_double (Fin a) (Fin b) = (if b = 0 then sgn_mult True a else Fin (a / b))"
| "divide_double NaN b = NaN"
| "divide_double a NaN = NaN"
| "divide_double (Fin a) PInf = Fin 0"
| "divide_double (Fin a) NInf = Fin 0"
| "divide_double PInf (Fin b) = (if 0 \<le> b then PInf else NInf)"
| "divide_double NInf (Fin b) = (if 0 \<le> b then NInf else PInf)"
| "divide_double a b = NaN"

fun less_double :: "double \<Rightarrow> double \<Rightarrow> bool" where
  "less_double (Fin a) (Fin b) = (a < b)"
| "less_double NaN b = False"
| "less_double a NaN = False"
| "less_double a NInf = False"
| "less_double PInf b = False"
| "less_double NInf b = True"
| "less_double a PInf = True"

fun less_eq_double :: "double \<Rightarrow> double \<Rightarrow> bool" where
  "less_eq_double (Fin a) (Fin b) = (a \<le> b)"
| "less_eq_double NaN b = False"
| "less_eq_double a NaN = False"
| "less_eq_double NInf b = True"
| "less_eq_double a PInf = True"
| "less_eq_double a NInf = False"
| "less_eq_double PInf b = False"

instance ..

end

text \<open>\<^verbatim>\<open>fabs\<close> and \<^verbatim>\<open>sqrt\<close> of \<^verbatim>\<open><cmath>\<close>: the square root of a negative number is NaN.\<close>

fun fabs :: "double \<Rightarrow> double" where
  "fabs (Fin a) = Fin \<bar>a\<bar>"
| "fabs NaN = NaN"
| "fabs PInf = PInf"
| "fabs NInf = PInf"

fun sqrt_d :: "double \<Rightarrow> double" where
  "sqrt_d (Fin a) = (if a < 0 then NaN else Fin (sqrt a))"
| "sqrt_d NaN = NaN"
| "sqrt_d PInf = PInf"
| "sqrt_d NInf = NaN"


subsection \<open>Variables, linear functions, constraints, problems\<close>

text \<open>
  A variable is addressed by its index in the problem that owns it. The relaxation is built
  variable for variable from the original problem, and \<^verbatim>\<open>Relaxation::getRelaxationVar\<close> and
  \<^verbatim>\<open>Relaxation::getOriginalVar\<close> map a variable to the one with the same index in the other
  problem; so one index names both, and the problem that is read or written says which of
  the two objects is meant. Where the code compares two pointers to variables, in
  branching, a pointer is a \<open>VariablePtr\<close> below, which also says whose object it points to.
  A constraint is addressed by its index in the list of constraints of its problem; \<open>None\<close>
  is the null \<^verbatim>\<open>ConstraintPtr\<close>. Calls forwarded to an attached engine are not modelled.
\<close>

type_synonym var = nat

record Variable =
  lb_' :: double
  ub_' :: double

datatype BoundType = Lower | Upper


datatype SeparationStatus = SepaContinue | SepaResolve | SepaPrune | SepaNone | SepaError

datatype error = AssertionFailed | NullPointer

type_synonym LinearFunction = "(var \<times> double) list"

text \<open>
  Modelled from the spec: \<^verbatim>\<open>LinearFunction\<close> (LinearFunction.h and LinearFunction.cpp are
  not among the sources). The spec describes the linear part of a function as an ordered
  mapping from variables to nonzero coefficients: \<open>addTerm\<close> records a term unless its
  coefficient is zero, \<open>getWeight\<close> is the coefficient of a variable (zero when the variable
  has no term), and the value of the function at a point is the sum of its terms.
\<close>

definition addTerm :: "LinearFunction \<Rightarrow> var \<Rightarrow> double \<Rightarrow> LinearFunction" where
  "addTerm lf v a = (if a = Fin 0 then lf else lf @ [(v, a)])"

definition getWeight :: "LinearFunction \<Rightarrow> var \<Rightarrow> double" where
  "getWeight lf v = (case map_of lf v of None \<Rightarrow> Fin 0 | Some a \<Rightarrow> a)"

fun eval_lf :: "LinearFunction \<Rightarrow> (var \<Rightarrow> double) \<Rightarrow> double" where
  "eval_lf [] x = Fin 0"
| "eval_lf ((v, a) # ts) x = a * x v + eval_lf ts x"

record Constraint =
  f_' :: LinearFunction
  lb_c :: double
  ub_c :: double

text \<open>A point satisfies a constraint when the value of its function is within its bounds.\<close>

definition satisfies :: "(var \<Rightarrow> double) \<Rightarrow> Constraint \<Rightarrow> bool" where
  "satisfies x c = (lb_c c \<le> eval_lf (f_' c) x \<and> eval_lf (f_' c) x \<le> ub_c c)"

record Problem =
  vars_' :: "var \<Rightarrow> Variable"
  cons_' :: "Constraint list"

definition getLb :: "Problem \<Rightarrow> var \<Rightarrow> double" where
  "getLb p v = lb_' (vars_' p v)"

definition getUb :: "Problem \<Rightarrow> var \<Rightarrow> double" where
  "getUb p v = ub_' (vars_' p v)"

text \<open>
  A pointer to a variable object. The constructor of \<^verbatim>\<open>Relaxation\<close> (Relaxation.cpp, line 58)
  clones every variable of the original problem, so a variable of \<^verbatim>\<open>p_\<close> and the variable
  of the relaxation with the same index are two objects, and two pointers are equal only
  when they point to the same object: \<open>OrigVar i\<close> points to variable \<open>i\<close> of the original
  problem, \<open>RelVar i\<close> to variable \<open>i\<close> of the relaxation.
\<close>

datatype VariablePtr = OrigVar var | RelVar var

fun getIndex :: "VariablePtr \<Rightarrow> var" where
  "getIndex (OrigVar i) = i"
| "getIndex (RelVar i) = i"


definition getRelaxationVar :: "VariablePtr \<Rightarrow> VariablePtr" where
  "getRelaxationVar original_var = RelVar (getIndex original_var)"



text \<open>\<^verbatim>\<open>Problem::changeBound(VariablePtr, BoundType, Double)\<close> (Problem.cpp, line 518).\<close>

definition changeBound :: "Problem \<Rightarrow> var \<Rightarrow> BoundType \<Rightarrow> double \<Rightarrow> Problem" where
  "changeBound p v lu new_val =
     (if lu = Lower then p\<lparr>vars_' := (vars_' p)(v := (vars_' p v)\<lparr>lb_' := new_val\<rparr>)\<rparr>
      else p\<lparr>vars_' := (vars_' p)(v := (vars_' p v)\<lparr>ub_' := new_val\<rparr>)\<rparr>)"

text \<open>\<^verbatim>\<open>Problem::changeBound(VariablePtr, Double, Double)\<close> (Problem.cpp, line 535).\<close>

definition changeBound2 :: "Problem \<Rightarrow> var \<Rightarrow> double \<Rightarrow> double \<Rightarrow> Problem" where
  "changeBound2 p v new_lb new_ub =
     p\<lparr>vars_' := (vars_' p)(v := (vars_' p v)\<lparr>lb_' := new_lb, ub_' := new_ub\<rparr>)\<rparr>"

text \<open>
  \<^verbatim>\<open>Problem::newConstraint\<close> (Problem.cpp, line 260) appends the constraint; its index is
  the number of constraints before the call.
\<close>

definition newConstraint ::
  "Problem \<Rightarrow> LinearFunction \<Rightarrow> double \<Rightarrow> double \<Rightarrow> nat \<times> Problem" where
  "newConstraint p lf lb ub =
     (length (cons_' p), p\<lparr>cons_' := cons_' p @ [\<lparr>f_' = lf, lb_c = lb, ub_c = ub\<rparr>]\<rparr>)"

text \<open>
  \<^verbatim>\<open>Problem::changeConstraint\<close> (Problem.cpp, line 618) replaces the linear function and
  both bounds of a constraint of the problem.
\<close>

definition changeConstraint ::
  "Problem \<Rightarrow> nat \<Rightarrow> LinearFunction \<Rightarrow> double \<Rightarrow> double \<Rightarrow> Problem" where
  "changeConstraint p con lf lb ub =
     p\<lparr>cons_' := (cons_' p)[con := \<lparr>f_' = lf, lb_c = lb, ub_c = ub\<rparr>]\<rparr>"

text \<open>Following a \<^verbatim>\<open>ConstraintPtr\<close>: a null pointer, or one to no constraint of the problem, fails.\<close>

definition deref :: "Problem \<Rightarrow> nat option \<Rightarrow> error + nat \<times> Constraint" where
  "deref p c =
     (case c of
        None \<Rightarrow> Inl NullPointer
      | Some i \<Rightarrow> if i < length (cons_' p) then Inr (i, cons_' p ! i) else Inl NullPointer)"

subsection \<open>Interval operations\<close>

text \<open>
  \<^verbatim>\<open>BoundsOnSquare\<close>, \<^verbatim>\<open>BoundsOnProduct\<close> and \<^verbatim>\<open>BoundsOnDiv\<close> are declared in Operations.h,
  which is not among the sources. The functions of the handler that call them take them as
  the argument \<open>ops\<close>.
\<close>

record Operations =
  BoundsOnSquare :: "double \<Rightarrow> double \<Rightarrow> double \<times> double"
  BoundsOnProduct :: "double \<Rightarrow> double \<Rightarrow> double \<Rightarrow> double \<Rightarrow> double \<times> double"
  BoundsOnDiv :: "double \<Rightarrow> double \<Rightarrow> double \<Rightarrow> double \<Rightarrow> double \<times> double"

definition min_d :: "double \<Rightarrow> double \<Rightarrow> double" where
  "min_d a b = (if b < a then b else a)"

definition max_d :: "double \<Rightarrow> double \<Rightarrow> double" where
  "max_d a b = (if a < b then b else a)"

text \<open>
  Modelled from the spec: \<^verbatim>\<open>BoundsOnSquare\<close> of Operations.cpp, which is missing. The spec
  tightens \<open>y\<close> with \<open>[min(x\<^sup>2), max(x\<^sup>2)]\<close> over \<open>x \<in> [l, u]\<close>.
\<close>

definition spec_BoundsOnSquare :: "double \<Rightarrow> double \<Rightarrow> double \<times> double" where
  "spec_BoundsOnSquare l u =
     (if Fin 0 < l then (l * l, u * u)
      else if u < Fin 0 then (u * u, l * l)
      else (Fin 0, max_d (l * l) (u * u)))"

text \<open>
  Modelled from the spec: \<^verbatim>\<open>BoundsOnProduct\<close> of Operations.cpp, which is missing. The spec
  takes the least and the greatest of the four corner products.
\<close>

definition spec_BoundsOnProduct ::
  "double \<Rightarrow> double \<Rightarrow> double \<Rightarrow> double \<Rightarrow> double \<times> double" where
  "spec_BoundsOnProduct l0 u0 l1 u1 =
     (min_d (min_d (l0 * l1) (l0 * u1)) (min_d (u0 * l1) (u0 * u1)),
      max_d (max_d (l0 * l1) (l0 * u1)) (max_d (u0 * l1) (u0 * u1)))"

text \<open>
  Modelled from the spec: \<^verbatim>\<open>BoundsOnDiv\<close> of Operations.cpp, which is missing. The spec asks
  for the interval quotient of \<open>[a, b]\<close> by \<open>[c, d]\<close>; for a denominator that does not contain
  zero this is the least and the greatest of the four corner quotients, and for one that
  contains zero the whole line is taken here.
\<close>

definition spec_BoundsOnDiv ::
  "double \<Rightarrow> double \<Rightarrow> double \<Rightarrow> double \<Rightarrow> double \<times> double" where
  "spec_BoundsOnDiv a b c d =
     (if Fin 0 < c \<or> d < Fin 0 then
        (min_d (min_d (a / c) (a / d)) (min_d (b / c) (b / d)),
         max_d (max_d (a / c) (a / d)) (max_d (b / c) (b / d)))
      else (NInf, PInf))"

definition spec_ops :: Operations where
  "spec_ops = \<lparr>BoundsOnSquare = spec_BoundsOnSquare,
                BoundsOnProduct = spec_BoundsOnProduct,
                BoundsOnDiv = spec_BoundsOnDiv\<rparr>"

subsection \<open>The handler\<close>

text \<open>
  \<^verbatim>\<open>LinSqr\<close> is the record of a term \<open>y = x\<^sup>2\<close> with its secant constraint \<^verbatim>\<open>oeCon\<close>;
  \<^verbatim>\<open>LinBil\<close> the record of a term \<open>y = x0 x1\<close> with its four envelope constraints. The
  variables of a term are variables of \<^verbatim>\<open>p_\<close>, kept by index. The map \<^verbatim>\<open>x2Funs_\<close> and the set
  \<^verbatim>\<open>x0x1Funs_\<close> are the lists of their elements in iteration order.
\<close>

record LinSqr =
  x_sq :: var
  y_sq :: var
  oeCon :: "nat option"

record LinBil =
  x0_' :: var
  x1_' :: var
  y_' :: var
  c0_' :: "nat option"
  c1_' :: "nat option"
  c2_' :: "nat option"
  c3_' :: "nat option"

record QuadHandler =
  p_' :: Problem
  x2Funs_' :: "LinSqr list"
  x0x1Funs_' :: "LinBil list"
  modProb_' :: bool
  modRel_' :: bool

definition aTol_' :: double where
  "aTol_' = Fin (1 / 100000)"

definition rTol_' :: double where
  "rTol_' = Fin (1 / 10000)"

text \<open>\<^verbatim>\<open>LinBil::LinBil\<close> (line 1066) orders the two operands by index.\<close>

definition new_LinBil :: "var \<Rightarrow> var \<Rightarrow> var \<Rightarrow> LinBil" where
  "new_LinBil x0 x1 y =
     (if x0 > x1
      then \<lparr>x0_' = x1, x1_' = x0, y_' = y, c0_' = None, c1_' = None, c2_' = None, c3_' = None\<rparr>
      else \<lparr>x0_' = x0, x1_' = x1, y_' = y, c0_' = None, c1_' = None, c2_' = None, c3_' = None\<rparr>)"


definition setCons ::
  "LinBil \<Rightarrow> nat option \<Rightarrow> nat option \<Rightarrow> nat option \<Rightarrow> nat option \<Rightarrow> LinBil" where
  "setCons b c0 c1 c2 c3 = b\<lparr>c0_' := c0, c1_' := c1, c2_' := c2, c3_' := c3\<rparr>"

subsection \<open>Envelopes and the initial relaxation\<close>

text \<open>
  \<^verbatim>\<open>QuadHandler::getNewBilLf_\<close> (line 433) returns the linear function and, through \<^verbatim>\<open>rhs\<close>,
  the right-hand side of the envelope of the given type. No bound is tested.
\<close>

definition getNewBilLf_' ::
  "var \<Rightarrow> double \<Rightarrow> double \<Rightarrow> var \<Rightarrow> double \<Rightarrow> double \<Rightarrow> var \<Rightarrow> int
     \<Rightarrow> error + LinearFunction \<times> double" where
  "getNewBilLf_' x0 lb0 ub0 x1 lb1 ub1 y type =
     (if type = 0 then
        Inr (addTerm (addTerm (addTerm [] x1 lb0) x0 lb1) y (Fin (- 1)), lb0 * lb1)
      else if type = 1 then
        Inr (addTerm (addTerm (addTerm [] x1 ub0) x0 ub1) y (Fin (- 1)), ub0 * ub1)
      else if type = 2 then
        Inr (addTerm (addTerm (addTerm [] x0 (Fin (- 1) * ub1)) x1 (Fin (- 1) * lb0)) y (Fin 1),
             - lb0 * ub1)
      else if type = 3 then
        Inr (addTerm (addTerm (addTerm [] x0 (Fin (- 1) * lb1)) x1 (Fin (- 1) * ub0)) y (Fin 1),
             - ub0 * lb1)
      else Inl AssertionFailed)"

text \<open>
  \<^verbatim>\<open>QuadHandler::getNewSqLf_\<close> (line 479). The assertion fails unless
  \<^verbatim>\<open>lb > -1e21 && ub < 1e21\<close>; when \<open>|ub + lb|\<close> is at most \<^verbatim>\<open>aTol_\<close> the term of \<open>x\<close> is left out.
\<close>

definition getNewSqLf_' ::
  "var \<Rightarrow> var \<Rightarrow> double \<Rightarrow> double \<Rightarrow> error + LinearFunction \<times> double" where
  "getNewSqLf_' x y lb ub =
     (let r = - ub * lb in
      if \<not> (lb > Fin (- (10 ^ 21)) \<and> ub < Fin (10 ^ 21)) then Inl AssertionFailed
      else if fabs (ub + lb) > aTol_' then
        Inr (addTerm (addTerm [] y (Fin 1)) x (Fin (- 1) * (ub + lb)), r)
      else Inr (addTerm [] y (Fin 1), r))"

text \<open>
  \<^verbatim>\<open>QuadHandler::relax_\<close> (line 774): the first loop adds the secant of every square term,
  the second the four envelopes of every bilinear term. The closing call of
  \<^verbatim>\<open>checkConVars\<close>, which is not among the sources, is left out.
\<close>

fun relax_x2Funs :: "LinSqr list \<Rightarrow> Problem \<Rightarrow> error + LinSqr list \<times> Problem" where
  "relax_x2Funs [] rel = Inr ([], rel)"
| "relax_x2Funs (s # ss) rel =
     (case getNewSqLf_' (x_sq s) (y_sq s) (getLb rel (x_sq s)) (getUb rel (x_sq s)) of
        Inl e \<Rightarrow> Inl e
      | Inr (lf, rhs) \<Rightarrow>
          (case newConstraint rel lf NInf rhs of
             (c, rel') \<Rightarrow>
               (case relax_x2Funs ss rel' of
                  Inl e \<Rightarrow> Inl e
                | Inr (ss', rel'') \<Rightarrow> Inr (s\<lparr>oeCon := Some c\<rparr> # ss', rel''))))"

text \<open>The inner loop \<^verbatim>\<open>for (int i=0; i<4; ++i)\<close>, from \<open>i\<close> on, collecting \<^verbatim>\<open>cons[i]\<close>.\<close>

function relax_bil_cons ::
  "LinBil \<Rightarrow> int \<Rightarrow> Problem \<Rightarrow> error + nat list \<times> Problem" where
  "relax_bil_cons b i rel =
     (if i < 4 then
        (case getNewBilLf_' (x0_' b) (getLb rel (x0_' b)) (getUb rel (x0_' b))
                 (x1_' b) (getLb rel (x1_' b)) (getUb rel (x1_' b)) (y_' b) i of
           Inl e \<Rightarrow> Inl e
         | Inr (lf, rhs) \<Rightarrow>
             (case newConstraint rel lf NInf rhs of
                (c, rel') \<Rightarrow>
                  (case relax_bil_cons b (i + 1) rel' of
                     Inl e \<Rightarrow> Inl e
                   | Inr (cs, rel'') \<Rightarrow> Inr (c # cs, rel''))))
      else Inr ([], rel))"
  by pat_completeness auto
termination
  by (relation "measure (\<lambda>(b, i, rel). nat (4 - i))") auto

fun relax_x0x1Funs :: "LinBil list \<Rightarrow> Problem \<Rightarrow> error + LinBil list \<times> Problem" where
  "relax_x0x1Funs [] rel = Inr ([], rel)"
| "relax_x0x1Funs (b # bs) rel =
     (case relax_bil_cons b 0 rel of
        Inl e \<Rightarrow> Inl e
      | Inr (cs, rel') \<Rightarrow>
          (case cs of
             [c0, c1, c2, c3] \<Rightarrow>
               (case relax_x0x1Funs bs rel' of
                  Inl e \<Rightarrow> Inl e
                | Inr (bs', rel'') \<Rightarrow>
                    Inr (setCons b (Some c0) (Some c1) (Some c2) (Some c3) # bs', rel''))
           | _ \<Rightarrow> Inl AssertionFailed))"

definition relax_' :: "QuadHandler \<Rightarrow> Problem \<Rightarrow> error + QuadHandler \<times> Problem" where
  "relax_' h rel =
     (case relax_x2Funs (x2Funs_' h) rel of
        Inl e \<Rightarrow> Inl e
      | Inr (ss, rel') \<Rightarrow>
          (case relax_x0x1Funs (x0x1Funs_' h) rel' of
             Inl e \<Rightarrow> Inl e
           | Inr (bs, rel'') \<Rightarrow> Inr (h\<lparr>x2Funs_' := ss, x0x1Funs_' := bs\<rparr>, rel'')))"

subsection \<open>Feasibility\<close>

text \<open>\<^verbatim>\<open>LinBil::isViolated(const double *x)\<close> (line 1109).\<close>

definition isViolated :: "LinBil \<Rightarrow> (var \<Rightarrow> double) \<Rightarrow> bool" where
  "isViolated b x =
     (let xval = x (x0_' b) * x (x1_' b);
          yval = x (y_' b)
      in fabs (xval - yval) > aTol_' \<and> fabs (xval - yval) > fabs yval * rTol_')"

text \<open>
  \<^verbatim>\<open>QuadHandler::isFeasible\<close> (line 541): each loop returns false at the first violated
  term; \<open>x\<close> is the primal solution \<^verbatim>\<open>sol->getPrimal()\<close>.
\<close>

fun isFeasible_x2Funs :: "LinSqr list \<Rightarrow> (var \<Rightarrow> double) \<Rightarrow> bool" where
  "isFeasible_x2Funs [] x = True"
| "isFeasible_x2Funs (s # ss) x =
     (let xval = x (x_sq s);
          yval = x (y_sq s)
      in if fabs (yval - xval * xval) / (fabs yval + Fin (1 / 1000000)) > Fin (1 / 10000)
            \<and> fabs (yval - xval * xval) > Fin (1 / 100000)
         then False
         else isFeasible_x2Funs ss x)"

fun isFeasible_x0x1Funs :: "LinBil list \<Rightarrow> (var \<Rightarrow> double) \<Rightarrow> bool" where
  "isFeasible_x0x1Funs [] x = True"
| "isFeasible_x0x1Funs (b # bs) x =
     (if isViolated b x then False else isFeasible_x0x1Funs bs x)"

definition isFeasible :: "QuadHandler \<Rightarrow> (var \<Rightarrow> double) \<Rightarrow> bool" where
  "isFeasible h x =
     (if \<not> isFeasible_x2Funs (x2Funs_' h) x then False
      else if \<not> isFeasible_x0x1Funs (x0x1Funs_' h) x then False
      else True)"

subsection \<open>Separation\<close>

definition alfa :: double where
  "alfa = Fin (618 / 1000)"

definition errlim :: double where
  "errlim = Fin (1 / 10000)"

text \<open>
  The loop of \<^verbatim>\<open>QuadHandler::findLinPt_\<close> (line 155). It need not end: with an infinite
  \<^verbatim>\<open>xval\<close> the bracket never shrinks. \<open>None\<close> is the run that does not return.
\<close>

partial_function (option) findLinPt_while ::
  "double \<Rightarrow> double \<Rightarrow> double \<Rightarrow> double \<Rightarrow> double \<Rightarrow> double \<Rightarrow> double \<Rightarrow> double
     \<Rightarrow> double option" where
  "findLinPt_while xval yval a b mu la mu_val la_val =
     (if b - a > errlim then
        (if mu_val < la_val then
           findLinPt_while xval yval la b (la + alfa * (b - la)) mu
             ((la + alfa * (b - la) - xval) * (la + alfa * (b - la) - xval)
              + ((la + alfa * (b - la)) * (la + alfa * (b - la)) - yval)
                * ((la + alfa * (b - la)) * (la + alfa * (b - la)) - yval))
             mu_val
         else
           findLinPt_while xval yval a mu la (mu - alfa * (mu - a)) la_val
             ((mu - alfa * (mu - a) - xval) * (mu - alfa * (mu - a) - xval)
              + ((mu - alfa * (mu - a)) * (mu - alfa * (mu - a)) - yval)
                * ((mu - alfa * (mu - a)) * (mu - alfa * (mu - a)) - yval)))
      else Some la)"

text \<open>\<^verbatim>\<open>QuadHandler::findLinPt_\<close> (line 123) returns \<^verbatim>\<open>xl\<close> and \<^verbatim>\<open>yl\<close>.\<close>

definition findLinPt_' :: "double \<Rightarrow> double \<Rightarrow> (double \<times> double) option" where
  "findLinPt_' xval yval =
     (let a = (if xval > Fin 0 then sqrt_d yval else xval);
          b = (if xval > Fin 0 then xval else - sqrt_d yval);
          mu = a + alfa * (b - a);
          la = b - alfa * (b - a);
          mu_val = (mu - xval) * (mu - xval) + (mu * mu - yval) * (mu * mu - yval);
          la_val = (la - xval) * (la - xval) + (la * la - yval) * (la * la - yval)
      in case findLinPt_while xval yval a b mu la mu_val la_val of
           None \<Rightarrow> None
         | Some la' \<Rightarrow> Some (la', la' * la'))"

text \<open>
  \<^verbatim>\<open>QuadHandler::addCut_\<close> (line 501) returns the relaxation and \<^verbatim>\<open>ifcuts\<close>.
\<close>

definition addCut_' ::
  "var \<Rightarrow> var \<Rightarrow> double \<Rightarrow> double \<Rightarrow> double \<Rightarrow> double \<Rightarrow> Problem \<Rightarrow> Problem \<times> bool" where
  "addCut_' x y xl yl xval yval rel =
     (if Fin 2 * xl * xval - yval - yl > Fin (1 / 100000)
         \<and> Fin 2 * xl * xval - yval > yl * Fin (1 + 1 / 10000)
      then
        (let lf = addTerm (addTerm [] x (Fin 2 * xl)) y (Fin (- 1))
         in (snd (newConstraint rel lf NInf (xl * xl)), True))
      else (rel, False))"

text \<open>The body of the loop of \<^verbatim>\<open>QuadHandler::separate\<close> (line 838) for one square term.\<close>

definition separate_LinSqr ::
  "LinSqr \<Rightarrow> (var \<Rightarrow> double) \<Rightarrow> Problem \<Rightarrow> SeparationStatus
     \<Rightarrow> (Problem \<times> SeparationStatus) option" where
  "separate_LinSqr s x rel status =
     (let xval = x (x_sq s);
          yval = x (y_sq s)
      in if xval * xval > Fin (1 + 1 / 10000) * fabs yval
            \<and> fabs (xval * xval - yval) > Fin (1 / 100000)
         then
           (case findLinPt_' xval yval of
              None \<Rightarrow> None
            | Some (xl, yl) \<Rightarrow>
                (case addCut_' (x_sq s) (y_sq s) xl yl xval yval rel of
                   (rel', ifcuts) \<Rightarrow>
                     Some (rel', if ifcuts then SepaResolve else status)))
         else Some (rel, status))"

fun separate_x2Funs ::
  "LinSqr list \<Rightarrow> (var \<Rightarrow> double) \<Rightarrow> Problem \<Rightarrow> SeparationStatus
     \<Rightarrow> (Problem \<times> SeparationStatus) option" where
  "separate_x2Funs [] x rel status = Some (rel, status)"
| "separate_x2Funs (s # ss) x rel status =
     (case separate_LinSqr s x rel status of
        None \<Rightarrow> None
      | Some (rel', status') \<Rightarrow> separate_x2Funs ss x rel' status')"

definition separate ::
  "QuadHandler \<Rightarrow> (var \<Rightarrow> double) \<Rightarrow> Problem \<Rightarrow> SeparationStatus
     \<Rightarrow> (Problem \<times> SeparationStatus) option" where
  "separate h x rel status = separate_x2Funs (x2Funs_' h) x rel status"

subsection \<open>Modifications\<close>

text \<open>
  Modelled from the spec: the modification classes \<^verbatim>\<open>VarBoundMod\<close>, \<^verbatim>\<open>VarBoundMod2\<close>,
  \<^verbatim>\<open>LinConMod\<close>, \<^verbatim>\<open>SecantMod\<close> and \<^verbatim>\<open>LinMods\<close>, whose files are not among the sources. The
  spec's modification algebra records the kind of change, its target and the new state, and
  application writes the new state: a single-sided variable bound, both bounds of a
  variable, and the replacement of the linear function and bounds of a constraint. A
  \<^verbatim>\<open>SecantMod\<close> is kept as the tuple of the arguments of its constructor.
\<close>

datatype VarBoundMod = VarBoundMod var BoundType double

datatype VarBoundMod2 = VarBoundMod2 var double double

datatype LinConMod = LinConMod nat LinearFunction double double

datatype SecantMod =
  SecantMod "nat option" "LinearFunction option" double var BoundType double var

fun VarBoundMod_applyToProblem :: "VarBoundMod \<Rightarrow> Problem \<Rightarrow> Problem" where
  "VarBoundMod_applyToProblem (VarBoundMod v lu new_val) p = changeBound p v lu new_val"

fun VarBoundMod2_applyToProblem :: "VarBoundMod2 \<Rightarrow> Problem \<Rightarrow> Problem" where
  "VarBoundMod2_applyToProblem (VarBoundMod2 v new_lb new_ub) p = changeBound2 p v new_lb new_ub"

fun LinConMod_applyToProblem :: "LinConMod \<Rightarrow> Problem \<Rightarrow> Problem" where
  "LinConMod_applyToProblem (LinConMod con lf lb ub) p = changeConstraint p con lf lb ub"

text \<open>
  Modelled from the spec: \<^verbatim>\<open>LinMods\<close>, a package of modifications. The spec fixes the order
  of a package: the bound of the primary variable first, consequential bounds next, envelope
  replacements last. The three \<^verbatim>\<open>insert\<close> overloads that \<^verbatim>\<open>getBrMod\<close> calls file a
  modification under its kind, and \<open>LinMods_order\<close> lists the package in the spec's order.
\<close>

record LinMods =
  bmods_' :: "VarBoundMod list"
  bmods2_' :: "VarBoundMod2 list"
  lmods_' :: "LinConMod list"

datatype Modification =
  ModVarBound VarBoundMod
| ModVarBound2 VarBoundMod2
| ModLinCon LinConMod
| ModSecant SecantMod
| ModLinMods LinMods




definition insert_LinConMod :: "LinMods \<Rightarrow> LinConMod \<Rightarrow> LinMods" where
  "insert_LinConMod lmods lmod = lmods\<lparr>lmods_' := lmods_' lmods @ [lmod]\<rparr>"







subsection \<open>Bound propagation in the root presolve\<close>

text \<open>
  \<^verbatim>\<open>QuadHandler::updatePBounds_(VariablePtr, double, double, bool*)\<close> (line 870), on the
  problem \<^verbatim>\<open>p_\<close>; the flag is \<^verbatim>\<open>*changed\<close>.
\<close>

definition updatePBounds_' ::
  "var \<Rightarrow> double \<Rightarrow> double \<Rightarrow> Problem \<times> bool \<Rightarrow> int \<times> Problem \<times> bool" where
  "updatePBounds_' v lb ub pc =
     (case pc of (p, changed) \<Rightarrow>
        if ub < getLb p v - aTol_' \<or> lb > getUb p v + aTol_' then (- 1, p, changed)
        else
          (case (if ub < getUb p v - aTol_' then (changeBound p v Upper ub, True)
                 else (p, changed)) of
             (p1, changed1) \<Rightarrow>
               (case (if lb > getLb p1 v + aTol_' then (changeBound p1 v Lower lb, True)
                      else (p1, changed1)) of
                  (p2, changed2) \<Rightarrow> (0, p2, changed2))))"

text \<open>\<^verbatim>\<open>QuadHandler::propSqrBnds_(LinSqrMapIter, bool*)\<close> (line 700).\<close>

definition propSqrBnds_' ::
  "Operations \<Rightarrow> LinSqr \<Rightarrow> Problem \<times> bool \<Rightarrow> error + bool \<times> Problem \<times> bool" where
  "propSqrBnds_' ops lx2 pc =
     (let x = x_sq lx2;
          y = y_sq lx2
      in case BoundsOnSquare ops (getLb (fst pc) x) (getUb (fst pc) x) of
           (lb, ub) \<Rightarrow>
             (case updatePBounds_' y lb ub pc of
                (r, p1, changed1) \<Rightarrow>
                  if r < 0 then Inr (True, p1, changed1)
                  else if getUb p1 y > aTol_' then
                    (if \<not> getLb p1 y \<ge> Fin 0 then Inl AssertionFailed
                     else
                       (case updatePBounds_' x
                               (if getLb p1 x > - sqrt_d (getLb p1 y) + aTol_'
                                then sqrt_d (getLb p1 y) else - sqrt_d (getUb p1 y))
                               (sqrt_d (getUb p1 y)) (p1, changed1) of
                          (r2, p2, changed2) \<Rightarrow> Inr (r2 < 0, p2, changed2)))
                  else if getUb p1 y < - aTol_' then Inr (True, p1, changed1)
                  else
                    (case updatePBounds_' x (Fin 0) (Fin 0) (p1, changed1) of
                       (r2, p2, changed2) \<Rightarrow> Inr (r2 < 0, p2, changed2))))"

text \<open>
  \<^verbatim>\<open>QuadHandler::propBilBnds_(LinBilPtr, bool*)\<close> (line 673). Both calls of \<^verbatim>\<open>BoundsOnDiv\<close>
  pass the lower bound of the denominator twice.
\<close>

definition propBilBnds_' ::
  "Operations \<Rightarrow> LinBil \<Rightarrow> Problem \<times> bool \<Rightarrow> bool \<times> Problem \<times> bool" where
  "propBilBnds_' ops lx0x1 pc =
     (let x0 = x0_' lx0x1;
          x1 = x1_' lx0x1;
          y = y_' lx0x1
      in case BoundsOnProduct ops (getLb (fst pc) x0) (getUb (fst pc) x0)
                (getLb (fst pc) x1) (getUb (fst pc) x1) of
           (lb, ub) \<Rightarrow>
             (case updatePBounds_' y lb ub pc of
                (r, p1, changed1) \<Rightarrow>
                  if r < 0 then (True, p1, changed1)
                  else
                    (case BoundsOnDiv ops (getLb p1 y) (getUb p1 y) (getLb p1 x0) (getLb p1 x0) of
                       (lb1, ub1) \<Rightarrow>
                         (case updatePBounds_' x1 lb1 ub1 (p1, changed1) of
                            (r2, p2, changed2) \<Rightarrow>
                              if r2 < 0 then (True, p2, changed2)
                              else
                                (case BoundsOnDiv ops (getLb p2 y) (getUb p2 y)
                                        (getLb p2 x1) (getLb p2 x1) of
                                   (lb2, ub2) \<Rightarrow>
                                     (case updatePBounds_' x0 lb2 ub2 (p2, changed2) of
                                        (r3, p3, changed3) \<Rightarrow>
                                          if r3 < 0 then (True, p3, changed3)
                                          else (False, p3, changed3)))))))"

text \<open>\<^verbatim>\<open>QuadHandler::varBndsFromCons_\<close> (line 1044) and \<^verbatim>\<open>QuadHandler::presolve\<close> (line 574).\<close>

fun varBndsFromCons_x2Funs ::
  "Operations \<Rightarrow> LinSqr list \<Rightarrow> Problem \<times> bool \<Rightarrow> error + bool \<times> Problem \<times> bool" where
  "varBndsFromCons_x2Funs ops [] pc = Inr (False, pc)"
| "varBndsFromCons_x2Funs ops (s # ss) pc =
     (case propSqrBnds_' ops s pc of
        Inl e \<Rightarrow> Inl e
      | Inr (is_inf, pc') \<Rightarrow>
          if is_inf then Inr (True, pc') else varBndsFromCons_x2Funs ops ss pc')"

fun varBndsFromCons_x0x1Funs ::
  "Operations \<Rightarrow> LinBil list \<Rightarrow> Problem \<times> bool \<Rightarrow> bool \<times> Problem \<times> bool" where
  "varBndsFromCons_x0x1Funs ops [] pc = (False, pc)"
| "varBndsFromCons_x0x1Funs ops (b # bs) pc =
     (case propBilBnds_' ops b pc of
        (is_inf, pc') \<Rightarrow>
          if is_inf then (True, pc') else varBndsFromCons_x0x1Funs ops bs pc')"

definition varBndsFromCons_' ::
  "Operations \<Rightarrow> QuadHandler \<Rightarrow> bool \<Rightarrow> error + bool \<times> QuadHandler \<times> bool" where
  "varBndsFromCons_' ops h changed =
     (case varBndsFromCons_x2Funs ops (x2Funs_' h) (p_' h, changed) of
        Inl e \<Rightarrow> Inl e
      | Inr (is_inf, pc) \<Rightarrow>
          if is_inf then Inr (True, h\<lparr>p_' := fst pc\<rparr>, snd pc)
          else
            (case varBndsFromCons_x0x1Funs ops (x0x1Funs_' h) pc of
               (is_inf', p', changed') \<Rightarrow> Inr (is_inf', h\<lparr>p_' := p'\<rparr>, changed')))"

datatype SolveStatus =
  NotStarted | Started | Restarted | SolvedOptimal | SolvedInfeasible | SolvedUnbounded
| SolvedGapLimit | SolvedSolsLimit | IterationLimitReached | Interrupted | TimeLimitReached
| Finished

definition presolve ::
  "Operations \<Rightarrow> QuadHandler \<Rightarrow> error + SolveStatus \<times> QuadHandler \<times> bool" where
  "presolve ops h =
     (case varBndsFromCons_' ops h False of
        Inl e \<Rightarrow> Inl e
      | Inr (is_inf, h', changed) \<Rightarrow>
          Inr (if is_inf then SolvedInfeasible else Finished, h', changed))"

subsection \<open>Bound propagation in the node presolve\<close>

text \<open>
  The state that the node presolve works on: the problem \<^verbatim>\<open>p_\<close>, the relaxation, the flag
  behind the pointer \<^verbatim>\<open>changed\<close>, and the two vectors of modifications.
\<close>

record NodeState =
  n_p :: Problem
  n_rel :: Problem
  n_changed :: bool
  n_p_mods :: "Modification list"
  n_r_mods :: "Modification list"

text \<open>
  \<^verbatim>\<open>QuadHandler::updatePBounds_\<close> with a relaxation (line 890). The last branch, which
  changes the upper bound alone, does not set \<^verbatim>\<open>*changed\<close>.
\<close>

definition updatePBounds_node ::
  "var \<Rightarrow> double \<Rightarrow> double \<Rightarrow> bool \<Rightarrow> NodeState \<Rightarrow> int \<times> NodeState" where
  "updatePBounds_node v lb ub mod_rel st =
     (if lb > getUb (n_p st) v + aTol_' \<or> ub < getLb (n_p st) v - aTol_' then (- 1, st)
      else if lb > getLb (n_p st) v + aTol_' \<and> ub < getUb (n_p st) v - aTol_' then
        (0, (if mod_rel
             then (\<lambda>s. s\<lparr>n_rel := VarBoundMod2_applyToProblem (VarBoundMod2 v lb ub) (n_rel s),
                         n_r_mods := n_r_mods s @ [ModVarBound2 (VarBoundMod2 v lb ub)]\<rparr>)
             else (\<lambda>s. s))
              (st\<lparr>n_changed := True,
                  n_p := VarBoundMod2_applyToProblem (VarBoundMod2 v lb ub) (n_p st),
                  n_p_mods := n_p_mods st @ [ModVarBound2 (VarBoundMod2 v lb ub)]\<rparr>))
      else if lb > getLb (n_p st) v + aTol_' then
        (0, (if mod_rel
             then (\<lambda>s. s\<lparr>n_rel := VarBoundMod_applyToProblem (VarBoundMod v Lower lb) (n_rel s),
                         n_r_mods := n_r_mods s @ [ModVarBound (VarBoundMod v Lower lb)]\<rparr>)
             else (\<lambda>s. s))
              (st\<lparr>n_changed := True,
                  n_p := VarBoundMod_applyToProblem (VarBoundMod v Lower lb) (n_p st),
                  n_p_mods := n_p_mods st @ [ModVarBound (VarBoundMod v Lower lb)]\<rparr>))
      else if ub < getUb (n_p st) v - aTol_' then
        (0, (if mod_rel
             then (\<lambda>s. s\<lparr>n_rel := VarBoundMod_applyToProblem (VarBoundMod v Upper ub) (n_rel s),
                         n_r_mods := n_r_mods s @ [ModVarBound (VarBoundMod v Upper ub)]\<rparr>)
             else (\<lambda>s. s))
              (st\<lparr>n_p := VarBoundMod_applyToProblem (VarBoundMod v Upper ub) (n_p st),
                  n_p_mods := n_p_mods st @ [ModVarBound (VarBoundMod v Upper ub)]\<rparr>))
      else (0, st))"

text \<open>
  \<^verbatim>\<open>QuadHandler::propSqrBnds_\<close> with a relaxation (line 733). When the upper bound of \<open>y\<close>
  is not above \<^verbatim>\<open>aTol_\<close>, the second test reads the upper bound of \<open>x\<close> (line 762).
\<close>

definition propSqrBnds_node ::
  "Operations \<Rightarrow> LinSqr \<Rightarrow> bool \<Rightarrow> NodeState \<Rightarrow> error + bool \<times> NodeState" where
  "propSqrBnds_node ops lx2 mod_rel st =
     (let x = x_sq lx2;
          y = y_sq lx2
      in case BoundsOnSquare ops (getLb (n_p st) x) (getUb (n_p st) x) of
           (lb, ub) \<Rightarrow>
             (case updatePBounds_node y lb ub mod_rel st of
                (r, st1) \<Rightarrow>
                  if r < 0 then Inr (True, st1)
                  else if getUb (n_p st1) y > aTol_' then
                    (if \<not> getLb (n_p st1) y \<ge> Fin 0 then Inl AssertionFailed
                     else
                       (case updatePBounds_node x
                               (if getLb (n_p st1) x > - sqrt_d (getLb (n_p st1) y) + aTol_'
                                then sqrt_d (getLb (n_p st1) y)
                                else - sqrt_d (getUb (n_p st1) y))
                               (sqrt_d (getUb (n_p st1) y)) mod_rel st1 of
                          (r2, st2) \<Rightarrow> Inr (r2 < 0, st2)))
                  else if getUb (n_p st1) x < - aTol_' then Inr (True, st1)
                  else
                    (case updatePBounds_node x (Fin 0) (Fin 0) mod_rel st1 of
                       (r2, st2) \<Rightarrow> Inr (r2 < 0, st2))))"

text \<open>
  \<^verbatim>\<open>QuadHandler::propBilBnds_\<close> with a relaxation (line 639). Both calls of \<^verbatim>\<open>BoundsOnDiv\<close>
  pass the lower bound of \<open>x0\<close> twice as the denominator.
\<close>

definition propBilBnds_node ::
  "Operations \<Rightarrow> LinBil \<Rightarrow> bool \<Rightarrow> NodeState \<Rightarrow> bool \<times> NodeState" where
  "propBilBnds_node ops lx0x1 mod_rel st =
     (let x0 = x0_' lx0x1;
          x1 = x1_' lx0x1;
          y = y_' lx0x1
      in case BoundsOnProduct ops (getLb (n_p st) x0) (getUb (n_p st) x0)
                (getLb (n_p st) x1) (getUb (n_p st) x1) of
           (lb, ub) \<Rightarrow>
             (case updatePBounds_node y lb ub mod_rel st of
                (r, st1) \<Rightarrow>
                  if r < 0 then (True, st1)
                  else
                    (case BoundsOnDiv ops (getLb (n_p st1) y) (getUb (n_p st1) y)
                            (getLb (n_p st1) x0) (getLb (n_p st1) x0) of
                       (lb1, ub1) \<Rightarrow>
                         (case updatePBounds_node x1 lb1 ub1 mod_rel st1 of
                            (r2, st2) \<Rightarrow>
                              if r2 < 0 then (True, st2)
                              else
                                (case BoundsOnDiv ops (getLb (n_p st2) y) (getUb (n_p st2) y)
                                        (getLb (n_p st2) x0) (getLb (n_p st2) x0) of
                                   (lb2, ub2) \<Rightarrow>
                                     (case updatePBounds_node x0 lb2 ub2 mod_rel st2 of
                                        (r3, st3) \<Rightarrow>
                                          if r3 < 0 then (True, st3)
                                          else (False, st3)))))))"

text \<open>
  \<^verbatim>\<open>QuadHandler::upSqCon_\<close> (line 1020) on the relaxation and \<^verbatim>\<open>r_mods\<close>; \<open>deref\<close> gives the
  index of the constraint together with the constraint.
\<close>

definition upSqCon_' ::
  "nat option \<Rightarrow> var \<Rightarrow> var \<Rightarrow> Problem \<times> Modification list
     \<Rightarrow> error + Problem \<times> Modification list" where
  "upSqCon_' con x y rm =
     (case rm of (rel, r_mods) \<Rightarrow>
        (case deref rel con of
           Inl e \<Rightarrow> Inl e
         | Inr (i, c) \<Rightarrow>
             (let a_x = getWeight (f_' c) x;
                  a_y = getWeight (f_' c) y;
                  lb = getLb rel x;
                  ub = getUb rel x
              in if \<not> fabs (a_y - Fin 1) \<le> Fin (1 / 100000000) then Inl AssertionFailed
                 else if lb * lb + a_x * lb < ub_c c - aTol_'
                         \<or> ub * ub + a_x * ub < ub_c c - aTol_' then
                   (case getNewSqLf_' x y (getLb rel x) (getUb rel x) of
                      Inl e \<Rightarrow> Inl e
                    | Inr (lf, rhs) \<Rightarrow>
                        Inr (LinConMod_applyToProblem (LinConMod i lf NInf rhs) rel,
                             r_mods @ [ModLinCon (LinConMod i lf NInf rhs)]))
                 else Inr (rel, r_mods))))"

text \<open>
  One of the four blocks of \<^verbatim>\<open>QuadHandler::upBilCon_\<close> (line 942): the blocks differ in the
  constraint, in the test on the weights \<open>a0\<close>, \<open>a1\<close> and the upper bound of the constraint,
  and in the type of the envelope.
\<close>

definition upBilCon_block ::
  "LinBil \<Rightarrow> nat option \<Rightarrow> (double \<Rightarrow> double \<Rightarrow> double \<Rightarrow> bool) \<Rightarrow> int
     \<Rightarrow> double \<Rightarrow> double \<Rightarrow> double \<Rightarrow> double
     \<Rightarrow> Problem \<times> Modification list \<Rightarrow> error + Problem \<times> Modification list" where
  "upBilCon_block lx0x1 con test type l0 u0 l1 u1 rm =
     (case rm of (rel, r_mods) \<Rightarrow>
        (case deref rel con of
           Inl e \<Rightarrow> Inl e
         | Inr (i, c) \<Rightarrow>
             if test (getWeight (f_' c) (x0_' lx0x1)) (getWeight (f_' c) (x1_' lx0x1)) (ub_c c)
             then
               (case getNewBilLf_' (x0_' lx0x1) l0 u0 (x1_' lx0x1) l1 u1 (y_' lx0x1) type of
                  Inl e \<Rightarrow> Inl e
                | Inr (lf, rhs) \<Rightarrow>
                    Inr (LinConMod_applyToProblem (LinConMod i lf NInf rhs) rel,
                         r_mods @ [ModLinCon (LinConMod i lf NInf rhs)]))
             else Inr (rel, r_mods)))"

definition upBilCon_' ::
  "LinBil \<Rightarrow> Problem \<times> Modification list \<Rightarrow> error + Problem \<times> Modification list" where
  "upBilCon_' lx0x1 rm =
     (let l0 = getLb (fst rm) (x0_' lx0x1);
          u0 = getUb (fst rm) (x0_' lx0x1);
          l1 = getLb (fst rm) (x1_' lx0x1);
          u1 = getUb (fst rm) (x1_' lx0x1)
      in case upBilCon_block lx0x1 (c0_' lx0x1)
                (\<lambda>a0 a1 cub. a0 * l0 + a1 * l1 - l0 * l1 < cub - aTol_'
                             \<or> a0 * l0 + a1 * u1 - l0 * u1 < cub - aTol_'
                             \<or> a0 * u0 + a1 * l1 - u0 * l1 < cub - aTol_')
                0 l0 u0 l1 u1 rm of
           Inl e \<Rightarrow> Inl e
         | Inr rm1 \<Rightarrow>
             (case upBilCon_block lx0x1 (c1_' lx0x1)
                     (\<lambda>a0 a1 cub. a0 * l0 + a1 * u1 - l0 * u1 < cub - aTol_'
                                  \<or> a0 * u0 + a1 * l1 - u0 * l1 < cub - aTol_'
                                  \<or> a0 * u0 + a1 * u1 - u0 * u1 < cub - aTol_')
                     1 l0 u0 l1 u1 rm1 of
                Inl e \<Rightarrow> Inl e
              | Inr rm2 \<Rightarrow>
                  (case upBilCon_block lx0x1 (c2_' lx0x1)
                          (\<lambda>a0 a1 cub. a0 * l0 + a1 * l1 + l0 * l1 < cub - aTol_'
                                       \<or> a0 * l0 + a1 * u1 + l0 * u1 < cub - aTol_'
                                       \<or> a0 * u0 + a1 * u1 + u0 * l1 < cub - aTol_')
                          2 l0 u0 l1 u1 rm2 of
                     Inl e \<Rightarrow> Inl e
                   | Inr rm3 \<Rightarrow>
                       upBilCon_block lx0x1 (c3_' lx0x1)
                         (\<lambda>a0 a1 cub. a0 * l0 + a1 * l1 + l0 * l1 < cub - aTol_'
                                      \<or> a0 * u0 + a1 * l1 + u0 * l1 < cub - aTol_'
                                      \<or> a0 * u0 + a1 * u1 + u0 * u1 < cub - aTol_')
                         3 l0 u0 l1 u1 rm3)))"

text \<open>
  The two \<^verbatim>\<open>for\<close> statements in the body of the \<^verbatim>\<open>while\<close> of
  \<^verbatim>\<open>QuadHandler::presolveNode\<close> (lines 605 and 614). The flag of the state is \<^verbatim>\<open>lchanged\<close>; the argument \<open>changed\<close> is the variable
  of that name. The first component of the result says that the function returned true.
\<close>

fun presolveNode_x2Funs ::
  "Operations \<Rightarrow> LinSqr list \<Rightarrow> bool \<Rightarrow> bool \<Rightarrow> NodeState
     \<Rightarrow> error + bool \<times> bool \<times> NodeState" where
  "presolveNode_x2Funs ops [] mod_rel changed st = Inr (False, changed, st)"
| "presolveNode_x2Funs ops (s # ss) mod_rel changed st =
     (case propSqrBnds_node ops s mod_rel st of
        Inl e \<Rightarrow> Inl e
      | Inr (is_inf, st') \<Rightarrow>
          if is_inf then Inr (True, (if n_changed st' then True else changed), st')
          else presolveNode_x2Funs ops ss mod_rel
                 (if n_changed st' then True else changed) st')"

fun presolveNode_x0x1Funs ::
  "Operations \<Rightarrow> LinBil list \<Rightarrow> bool \<Rightarrow> bool \<Rightarrow> NodeState \<Rightarrow> bool \<times> bool \<times> NodeState" where
  "presolveNode_x0x1Funs ops [] mod_rel changed st = (False, changed, st)"
| "presolveNode_x0x1Funs ops (b # bs) mod_rel changed st =
     (case propBilBnds_node ops b mod_rel st of
        (is_inf, st') \<Rightarrow>
          if is_inf then (True, (if n_changed st' then True else changed), st')
          else presolveNode_x0x1Funs ops bs mod_rel
                 (if n_changed st' then True else changed) st')"

text \<open>The body of the \<^verbatim>\<open>while\<close>: one sweep over all terms.\<close>

definition presolveNode_body ::
  "Operations \<Rightarrow> QuadHandler \<Rightarrow> bool \<Rightarrow> NodeState \<Rightarrow> error + bool \<times> bool \<times> NodeState" where
  "presolveNode_body ops h changed st =
     (case presolveNode_x2Funs ops (x2Funs_' h) (modRel_' h) changed
             (st\<lparr>n_changed := False\<rparr>) of
        Inl e \<Rightarrow> Inl e
      | Inr (is_inf, changed1, st1) \<Rightarrow>
          if is_inf then Inr (True, changed1, st1)
          else Inr (presolveNode_x0x1Funs ops (x0x1Funs_' h) (modRel_' h) changed1 st1))"

text \<open>
  The loop \<^verbatim>\<open>while (true==changed)\<close> (line 603). \<open>None\<close> is the run that does not return:
  nothing in the body resets \<^verbatim>\<open>changed\<close>.
\<close>

partial_function (option) presolveNode_while ::
  "Operations \<Rightarrow> QuadHandler \<Rightarrow> bool \<Rightarrow> NodeState \<Rightarrow> (error + bool \<times> NodeState) option" where
  "presolveNode_while ops h changed st =
     (if changed = True then
        (case presolveNode_body ops h changed st of
           Inl e \<Rightarrow> Some (Inl e)
         | Inr (is_inf, changed', st') \<Rightarrow>
             if is_inf then Some (Inr (True, st'))
             else presolveNode_while ops h changed' st')
      else Some (Inr (False, st)))"

text \<open>The two \<^verbatim>\<open>for\<close> statements after the \<^verbatim>\<open>while\<close> (lines 625 and 629).\<close>

fun presolveNode_upSqCon ::
  "LinSqr list \<Rightarrow> Problem \<times> Modification list \<Rightarrow> error + Problem \<times> Modification list" where
  "presolveNode_upSqCon [] rm = Inr rm"
| "presolveNode_upSqCon (s # ss) rm =
     (case upSqCon_' (oeCon s) (x_sq s) (y_sq s) rm of
        Inl e \<Rightarrow> Inl e
      | Inr rm' \<Rightarrow> presolveNode_upSqCon ss rm')"

fun presolveNode_upBilCon ::
  "LinBil list \<Rightarrow> Problem \<times> Modification list \<Rightarrow> error + Problem \<times> Modification list" where
  "presolveNode_upBilCon [] rm = Inr rm"
| "presolveNode_upBilCon (b # bs) rm =
     (case upBilCon_' b rm of
        Inl e \<Rightarrow> Inl e
      | Inr rm' \<Rightarrow> presolveNode_upBilCon bs rm')"

text \<open>
  \<^verbatim>\<open>QuadHandler::presolveNode\<close> (line 595): \<^verbatim>\<open>lchanged\<close> starts true and \<^verbatim>\<open>changed\<close> false.
  The result is the returned flag and the state left behind.
\<close>

definition presolveNode ::
  "Operations \<Rightarrow> QuadHandler \<Rightarrow> Problem \<Rightarrow> Modification list \<Rightarrow> Modification list
     \<Rightarrow> (error + bool \<times> NodeState) option" where
  "presolveNode ops h rel p_mods r_mods =
     (case presolveNode_while ops h False
             \<lparr>n_p = p_' h, n_rel = rel, n_changed = True,
              n_p_mods = p_mods, n_r_mods = r_mods\<rparr> of
        None \<Rightarrow> None
      | Some (Inl e) \<Rightarrow> Some (Inl e)
      | Some (Inr (is_inf, st)) \<Rightarrow>
          if is_inf then Some (Inr (True, st))
          else
            (case presolveNode_upSqCon (x2Funs_' h) (n_rel st, n_r_mods st) of
               Inl e \<Rightarrow> Some (Inl e)
             | Inr rm \<Rightarrow>
                 (case presolveNode_upBilCon (x0x1Funs_' h) rm of
                    Inl e \<Rightarrow> Some (Inl e)
                  | Inr (rel', r_mods') \<Rightarrow>
                      Some (Inr (False, st\<lparr>n_rel := rel', n_r_mods := r_mods'\<rparr>)))))"

subsection \<open>Branching\<close>




subsection \<open>Notions used in the statements\<close>


text \<open>
  The constraint that \<^verbatim>\<open>relax_\<close> makes of the envelope of type \<open>i\<close> of a bilinear term and
  of the secant of a square term, the test of the assertion of \<^verbatim>\<open>getNewSqLf_\<close>, and the
  terms with their constraints numbered from \<open>n\<close> on, as \<^verbatim>\<open>relax_\<close> leaves them.
\<close>

definition bil_con :: "Problem \<Rightarrow> LinBil \<Rightarrow> int \<Rightarrow> Constraint" where
  "bil_con rel b i = (case getNewBilLf_' (x0_' b) (getLb rel (x0_' b)) (getUb rel (x0_' b))
                 (x1_' b) (getLb rel (x1_' b)) (getUb rel (x1_' b)) (y_' b) i of Inr (lf, rhs) \<Rightarrow> \<lparr>f_' = lf, lb_c = NInf, ub_c = rhs\<rparr>)"

definition bil_cons :: "Problem \<Rightarrow> LinBil \<Rightarrow> Constraint list" where
  "bil_cons rel b = [bil_con rel b 0, bil_con rel b 1, bil_con rel b 2, bil_con rel b 3]"

fun number_bils :: "nat \<Rightarrow> LinBil list \<Rightarrow> LinBil list" where
  "number_bils n [] = []"
| "number_bils n (b # bs) = setCons b (Some n) (Some (n + 1)) (Some (n + 2)) (Some (n + 3)) # number_bils (n + 4) bs"

definition sq_ok :: "Problem \<Rightarrow> LinSqr \<Rightarrow> bool" where
  "sq_ok rel s = (Fin (- (10 ^ 21)) < getLb rel (x_sq s) \<and> getUb rel (x_sq s) < Fin (10 ^ 21))"

definition sq_con :: "Problem \<Rightarrow> LinSqr \<Rightarrow> Constraint" where
  "sq_con rel s = (case getNewSqLf_' (x_sq s) (y_sq s) (getLb rel (x_sq s)) (getUb rel (x_sq s)) of
      Inr (lf, rhs) \<Rightarrow> \<lparr>f_' = lf, lb_c = NInf, ub_c = rhs\<rparr>)"

fun number_sqrs :: "nat \<Rightarrow> LinSqr list \<Rightarrow> LinSqr list" where
  "number_sqrs n [] = []"
| "number_sqrs n (s # ss) = s\<lparr>oeCon := Some n\<rparr> # number_sqrs (n + 1) ss"


text \<open>
  Golden-section search on the reals, as the statement about separation names it. The state
  is the bracket \<open>[a, b]\<close> with the two points \<open>la\<close> and \<open>mu\<close>. A step compares the objective at
  the two points: the end of the bracket on the side of the point with the larger value
  moves to that point, the other point is kept, and a new point is placed at the ratio \<open>\<alpha>\<close>
  of the new bracket. The search starts with both points at the ratio \<open>\<alpha>\<close> from either end
  and stops with the first bracket that is not wider than \<open>tol\<close>; \<open>None\<close> is the search that
  does not stop.
\<close>

definition gs_step ::
  "(real \<Rightarrow> real) \<Rightarrow> real \<Rightarrow> real \<times> real \<times> real \<times> real \<Rightarrow> real \<times> real \<times> real \<times> real" where
  "gs_step f \<alpha> =
     (\<lambda>(a, b, la, mu).
        if f mu < f la then (la, b, mu, la + \<alpha> * (b - la))
        else (a, mu, mu - \<alpha> * (mu - a), la))"

definition gs_width :: "real \<times> real \<times> real \<times> real \<Rightarrow> real" where
  "gs_width = (\<lambda>(a, b, la, mu). b - a)"

definition golden_section ::
  "(real \<Rightarrow> real) \<Rightarrow> real \<Rightarrow> real \<Rightarrow> real \<Rightarrow> real \<Rightarrow> (real \<times> real \<times> real \<times> real) option" where
  "golden_section f \<alpha> tol a b =
     while_option (\<lambda>S. tol < gs_width S) (gs_step f \<alpha>)
       (a, b, b - \<alpha> * (b - a), a + \<alpha> * (b - a))"

text \<open>
  The objective of the search of \<^verbatim>\<open>findLinPt_\<close>, the squared distance of the point \<open>(t, t\<^sup>2)\<close> of
  the parabola from the solution (line 132), its bracket (line 143), and the point that
  the search with the ratio \<open>0.618\<close> and the tolerance \<open>10\<^sup>-\<^sup>4\<close> ends with.
\<close>

definition dist2 :: "real \<Rightarrow> real \<Rightarrow> real \<Rightarrow> real" where
  "dist2 xval yval t = (t - xval) * (t - xval) + (t * t - yval) * (t * t - yval)"

definition bracket_lo :: "real \<Rightarrow> real \<Rightarrow> real" where
  "bracket_lo xval yval = (if xval > 0 then sqrt yval else xval)"

definition bracket_hi :: "real \<Rightarrow> real \<Rightarrow> real" where
  "bracket_hi xval yval = (if xval > 0 then xval else - sqrt yval)"

definition lin_point :: "real \<Rightarrow> real \<Rightarrow> real option" where
  "lin_point xval yval =
     map_option (\<lambda>(a, b, la, mu). la)
       (golden_section (dist2 xval yval) (618 / 1000) (1 / 10000)
          (bracket_lo xval yval) (bracket_hi xval yval))"

text \<open>
  The test that makes \<^verbatim>\<open>separate\<close> consider a square term at the values \<open>xval\<close> and \<open>yval\<close> of
  the solution, the gradient inequality \<open>2 xl x - y \<le> xl\<^sup>2\<close> as a constraint, the test on its
  violation, and the cuts of one square term at a solution \<open>x\<close>: at most one, and none when
  \<open>yval\<close> is negative, where the square root in the bracket is NaN.
\<close>

definition violated_sq :: "real \<Rightarrow> real \<Rightarrow> bool" where
  "violated_sq xval yval \<longleftrightarrow>
     xval * xval > (1 + 1 / 10000) * \<bar>yval\<bar> \<and> \<bar>xval * xval - yval\<bar> > 1 / 100000"

definition gradient_cut :: "var \<Rightarrow> var \<Rightarrow> real \<Rightarrow> Constraint" where
  "gradient_cut x y xl =
     \<lparr>f_' = [(x, Fin (2 * xl)), (y, Fin (- 1))], lb_c = NInf, ub_c = Fin (xl * xl)\<rparr>"

definition cut_violated :: "real \<Rightarrow> real \<Rightarrow> real \<Rightarrow> bool" where
  "cut_violated xl xval yval \<longleftrightarrow>
     2 * xl * xval - yval - xl * xl > 1 / 100000
     \<and> 2 * xl * xval - yval > xl * xl * (1 + 1 / 10000)"

definition sq_cuts :: "(var \<Rightarrow> real) \<Rightarrow> LinSqr \<Rightarrow> Constraint list" where
  "sq_cuts x s =
     (let xval = x (x_sq s);
          yval = x (y_sq s)
      in if violated_sq xval yval \<and> 0 \<le> yval then
           (case lin_point xval yval of
              None \<Rightarrow> []
            | Some xl \<Rightarrow>
                if cut_violated xl xval yval then [gradient_cut (x_sq s) (y_sq s) xl] else [])
         else [])"

text \<open>
  For the proof that the search of \<^verbatim>\<open>findLinPt_\<close> stops. The objective has no local maximum
  between \<open>lo\<close> and \<open>hi\<close>: of three points, the one in the middle has a smaller value than one
  of the others. The invariant of the search: the four points stay between \<open>lo\<close> and \<open>hi\<close>,
  one of \<open>la\<close> and \<open>mu\<close> is at its ratio of the bracket, and the other is inside the bracket
  or has a value that the last comparison bounds by the value at the end it left behind.
  In a state that is \<open>gs_fast\<close> the next step shrinks the bracket to \<open>5/8\<close> at most.
\<close>

definition quasi_convex :: "(real \<Rightarrow> real) \<Rightarrow> real \<Rightarrow> real \<Rightarrow> bool" where
  "quasi_convex f lo hi \<longleftrightarrow>
     (\<forall>u v w. lo \<le> u \<and> u < v \<and> v < w \<and> w \<le> hi
        \<longrightarrow> (f u \<le> f v \<longrightarrow> f v < f w) \<and> (f w \<le> f v \<longrightarrow> f v < f u))"

definition gs_inv :: "(real \<Rightarrow> real) \<Rightarrow> real \<Rightarrow> real \<Rightarrow> real \<times> real \<times> real \<times> real \<Rightarrow> bool" where
  "gs_inv f lo hi =
     (\<lambda>(a, b, la, mu).
        lo \<le> a \<and> a \<le> hi \<and> lo \<le> b \<and> b \<le> hi \<and> lo \<le> la \<and> la \<le> hi \<and> lo \<le> mu \<and> mu \<le> hi
        \<and> ((mu = a + 618 / 1000 * (b - a) \<and> (a < la \<or> f la < f a))
           \<or> (la = b - 618 / 1000 * (b - a) \<and> (mu \<le> b \<or> f mu \<le> f b))))"

definition gs_fast :: "real \<times> real \<times> real \<times> real \<Rightarrow> bool" where
  "gs_fast =
     (\<lambda>(a, b, la, mu).
        \<not> (a < la \<and> la < a + 3 / 8 * (b - a)) \<and> \<not> (a + 5 / 8 * (b - a) < mu \<and> mu \<le> b))"

section \<open>Properties\<close>

declare relax_bil_cons.simps [simp del]

lemma Fin_minus [simp]: "Fin a - Fin b = Fin (a - b)"
  by (simp add: minus_double_def)

text \<open>The definitions that an evaluation of the bound propagation unfolds.\<close>

lemmas eval_defs = propSqrBnds_node_def updatePBounds_node_def spec_ops_def spec_BoundsOnSquare_def
  spec_BoundsOnProduct_def spec_BoundsOnDiv_def
  max_d_def min_d_def getLb_def getUb_def aTol_'_def changeBound_def changeBound2_def Let_def
  minus_double_def

text \<open>The loop of \<^verbatim>\<open>presolveNode\<close> entered with \<^verbatim>\<open>changed\<close> false returns at once.\<close>

lemma presolveNode_while_False:
  "presolveNode_while ops h False st = Some (Inr (False, st))"
  by (subst presolveNode_while.simps) simp

subsection \<open>The initial relaxation in closed form\<close>

lemma bil_con_vars: "vars_' p = vars_' q \<Longrightarrow> bil_con p b i = bil_con q b i"
  by (simp add: bil_con_def getLb_def getUb_def)

lemma bil_cons_vars:
  assumes "vars_' p = vars_' q"
  shows "bil_cons p = bil_cons q"
  by (rule ext) (simp add: bil_cons_def bil_con_vars [OF assms])

lemma length_bil_cons [simp]: "length (bil_cons rel b) = 4"
  by (simp add: bil_cons_def)

lemma getNewSqLf_fail:
  "\<not> sq_ok rel s \<Longrightarrow>
   getNewSqLf_' (x_sq s) (y_sq s) (getLb rel (x_sq s)) (getUb rel (x_sq s)) = Inl AssertionFailed"
  by (simp add: sq_ok_def getNewSqLf_'_def Let_def)

lemma getNewSqLf_ok:
  "sq_ok rel s \<Longrightarrow>
   getNewSqLf_' (x_sq s) (y_sq s) (getLb rel (x_sq s)) (getUb rel (x_sq s))
     = Inr (f_' (sq_con rel s), ub_c (sq_con rel s))
   \<and> \<lparr>f_' = f_' (sq_con rel s), lb_c = NInf, ub_c = ub_c (sq_con rel s)\<rparr> = sq_con rel s"
  by (simp add: sq_ok_def sq_con_def getNewSqLf_'_def Let_def)


lemma sq_con_vars: "vars_' p = vars_' q \<Longrightarrow> sq_con p s = sq_con q s"
  by (simp add: sq_con_def getLb_def getUb_def)

lemma sq_ok_vars: "vars_' p = vars_' q \<Longrightarrow> sq_ok p s = sq_ok q s"
  by (simp add: sq_ok_def getLb_def getUb_def)

lemma relax_bil_cons_0:
  "relax_bil_cons b 0 rel =
     Inr ([length (cons_' rel), length (cons_' rel) + 1, length (cons_' rel) + 2,
           length (cons_' rel) + 3],
          rel\<lparr>cons_' := cons_' rel @ bil_cons rel b\<rparr>)"
  apply (subst relax_bil_cons.simps)
  apply (subst relax_bil_cons.simps)
  apply (subst relax_bil_cons.simps)
  apply (subst relax_bil_cons.simps)
  apply (subst relax_bil_cons.simps)
  apply (simp add: bil_cons_def bil_con_def getNewBilLf_'_def newConstraint_def getLb_def getUb_def)
  done

lemma relax_x0x1Funs_eq:
  "relax_x0x1Funs bs rel =
     Inr (number_bils (length (cons_' rel)) bs,
          rel\<lparr>cons_' := cons_' rel @ concat (map (bil_cons rel) bs)\<rparr>)"
proof (induction bs arbitrary: rel)
  case Nil
  show ?case by simp
next
  case (Cons b bs)
  let ?rel1 = "rel\<lparr>cons_' := cons_' rel @ bil_cons rel b\<rparr>"
  have v: "bil_cons ?rel1 = bil_cons rel"
    by (rule bil_cons_vars) simp
  have len: "length (cons_' ?rel1) = length (cons_' rel) + 4"
    by (simp add: bil_cons_def)
  show ?case
    by (simp add: relax_bil_cons_0 Cons.IH [of ?rel1] v len add.commute)
qed

lemma relax_x2Funs_eq:
  "relax_x2Funs ss rel =
     (if list_all (sq_ok rel) ss
      then Inr (number_sqrs (length (cons_' rel)) ss,
                rel\<lparr>cons_' := cons_' rel @ map (sq_con rel) ss\<rparr>)
      else Inl AssertionFailed)"
proof (induction ss arbitrary: rel)
  case Nil
  show ?case by simp
next
  case (Cons s ss)
  show ?case
  proof (cases "sq_ok rel s")
    case False
    then show ?thesis
      by (simp add: getNewSqLf_fail)
  next
    case True
    let ?rel1 = "rel\<lparr>cons_' := cons_' rel @ [sq_con rel s]\<rparr>"
    note g = getNewSqLf_ok [OF True, THEN conjunct1]
    note c = getNewSqLf_ok [OF True, THEN conjunct2]
    have v: "sq_con ?rel1 = sq_con rel" "sq_ok ?rel1 = sq_ok rel"
      by (rule ext, rule sq_con_vars, simp) (rule ext, rule sq_ok_vars, simp)
    show ?thesis
      using True by (simp add: g c newConstraint_def Cons.IH [of ?rel1] v)
  qed
qed


lemma relax_eq:
  "relax_' h rel =
     (if list_all (sq_ok rel) (x2Funs_' h)
      then Inr (h\<lparr>x2Funs_' := number_sqrs (length (cons_' rel)) (x2Funs_' h),
                   x0x1Funs_' := number_bils (length (cons_' rel) + length (x2Funs_' h))
                                   (x0x1Funs_' h)\<rparr>,
                rel\<lparr>cons_' := cons_' rel @ map (sq_con rel) (x2Funs_' h)
                                 @ concat (map (bil_cons rel) (x0x1Funs_' h))\<rparr>)
      else Inl AssertionFailed)"
proof -
  let ?rel1 = "rel\<lparr>cons_' := cons_' rel @ map (sq_con rel) (x2Funs_' h)\<rparr>"
  have v: "bil_cons ?rel1 = bil_cons rel"
    by (rule bil_cons_vars) simp
  show ?thesis
    by (simp add: relax_'_def relax_x2Funs_eq relax_x0x1Funs_eq v)
qed

lemma number_bils_nth:
  "k < length bs \<Longrightarrow>
   number_bils n bs ! k =
     setCons (bs ! k) (Some (n + 4 * k)) (Some (n + 4 * k + 1)) (Some (n + 4 * k + 2))
       (Some (n + 4 * k + 3))"
proof (induction bs arbitrary: n k)
  case Nil
  then show ?case by simp
next
  case (Cons b bs)
  show ?case
  proof (cases k)
    case 0
    then show ?thesis by simp
  next
    case (Suc j)
    with Cons.prems have "j < length bs" by simp
    from Cons.IH [OF this, of "n + 4"] Suc show ?thesis
      by (simp add: add.assoc)
  qed
qed

lemma number_sqrs_nth:
  "k < length ss \<Longrightarrow> number_sqrs n ss ! k = (ss ! k)\<lparr>oeCon := Some (n + k)\<rparr>"
proof (induction ss arbitrary: n k)
  case Nil
  then show ?case by simp
next
  case (Cons s ss)
  show ?case
  proof (cases k)
    case 0
    then show ?thesis by simp
  next
    case (Suc j)
    with Cons.prems have "j < length ss" by simp
    from Cons.IH [OF this, of "n + 1"] Suc show ?thesis
      by simp
  qed
qed

lemma concat_bil_cons_nth:
  "k < length bs \<Longrightarrow> i < 4 \<Longrightarrow>
   concat (map (bil_cons rel) bs) ! (4 * k + i) = bil_cons rel (bs ! k) ! i"
proof (induction bs arbitrary: k)
  case Nil
  then show ?case by simp
next
  case (Cons b bs)
  show ?case
  proof (cases k)
    case 0
    with Cons.prems show ?thesis by (simp add: nth_append)
  next
    case (Suc j)
    with Cons.prems have j: "j < length bs" by simp
    have "4 * k + i = 4 + (4 * j + i)" using Suc by simp
    then show ?thesis
      using Cons.IH [OF j Cons.prems(2)] Suc by (simp add: nth_append)
  qed
qed

lemma length_concat_bil_cons [simp]:
  "length (concat (map (bil_cons rel) bs)) = 4 * length bs"
  by (induction bs) simp_all


lemma bil_con_finite:
  assumes "getLb rel (x0_' b) = Fin l0" "getUb rel (x0_' b) = Fin u0"
      and "getLb rel (x1_' b) = Fin l1" "getUb rel (x1_' b) = Fin u1"
  shows "eval_lf (f_' (bil_con rel b 0)) (\<lambda>v. Fin (p v))
           = Fin (l0 * p (x1_' b) + l1 * p (x0_' b) - p (y_' b))"
    and "eval_lf (f_' (bil_con rel b 1)) (\<lambda>v. Fin (p v))
           = Fin (u0 * p (x1_' b) + u1 * p (x0_' b) - p (y_' b))"
    and "eval_lf (f_' (bil_con rel b 2)) (\<lambda>v. Fin (p v))
           = Fin (p (y_' b) - u1 * p (x0_' b) - l0 * p (x1_' b))"
    and "eval_lf (f_' (bil_con rel b 3)) (\<lambda>v. Fin (p v))
           = Fin (p (y_' b) - l1 * p (x0_' b) - u0 * p (x1_' b))"
    and "ub_c (bil_con rel b 0) = Fin (l0 * l1)"
    and "ub_c (bil_con rel b 1) = Fin (u0 * u1)"
    and "ub_c (bil_con rel b 2) = Fin (- (l0 * u1))"
    and "ub_c (bil_con rel b 3) = Fin (- (u0 * l1))"
    and "lb_c (bil_con rel b 0) = NInf" "lb_c (bil_con rel b 1) = NInf"
        "lb_c (bil_con rel b 2) = NInf" "lb_c (bil_con rel b 3) = NInf"
  using assms by (simp_all add: bil_con_def getNewBilLf_'_def addTerm_def)

subsection \<open>McCormick envelopes of the initial relaxation\<close>

text \<open>
  Claim C5. When \<^verbatim>\<open>relax_\<close> succeeds, every bilinear term \<open>b\<close> of the handler whose operands
  have the finite bounds \<open>[l0, u0]\<close> and \<open>[l1, u1]\<close> in the relaxation is given four new
  constraints \<open>c0\<close>, \<open>c1\<close>, \<open>c2\<close>, \<open>c3\<close> of the relaxation, without lower bound; a point satisfies
  them exactly when it satisfies the four McCormick inequalities, and each holds with
  equality at its corner: \<open>c0\<close> at \<open>(l0, l1)\<close>, \<open>c1\<close> at \<open>(u0, u1)\<close>, \<open>c2\<close> at \<open>(l0, u1)\<close>, \<open>c3\<close> at
  \<open>(u0, l1)\<close>. The relaxation grows by one constraint for every square term and four for every
  bilinear term.
\<close>

theorem relax_McCormick:
  assumes r: "relax_' h rel = Inr (h', rel')"
      and k: "k < length (x0x1Funs_' h)"
      and b: "x0x1Funs_' h ! k = b"
      and l0: "getLb rel (x0_' b) = Fin l0" and u0: "getUb rel (x0_' b) = Fin u0"
      and l1: "getLb rel (x1_' b) = Fin l1" and u1: "getUb rel (x1_' b) = Fin u1"
  shows "\<exists>n c0 c1 c2 c3.
           x0x1Funs_' h' ! k = setCons b (Some n) (Some (n + 1)) (Some (n + 2)) (Some (n + 3))
         \<and> deref rel' (Some n) = Inr (n, c0)
         \<and> deref rel' (Some (n + 1)) = Inr (n + 1, c1)
         \<and> deref rel' (Some (n + 2)) = Inr (n + 2, c2)
         \<and> deref rel' (Some (n + 3)) = Inr (n + 3, c3)
         \<and> lb_c c0 = NInf \<and> lb_c c1 = NInf \<and> lb_c c2 = NInf \<and> lb_c c3 = NInf
         \<and> (\<forall>p. satisfies (\<lambda>v. Fin (p v)) c0
                  = (p (y_' b) \<ge> l1 * p (x0_' b) + l0 * p (x1_' b) - l0 * l1))
         \<and> (\<forall>p. satisfies (\<lambda>v. Fin (p v)) c1
                  = (p (y_' b) \<ge> u1 * p (x0_' b) + u0 * p (x1_' b) - u0 * u1))
         \<and> (\<forall>p. satisfies (\<lambda>v. Fin (p v)) c2
                  = (p (y_' b) \<le> u1 * p (x0_' b) + l0 * p (x1_' b) - l0 * u1))
         \<and> (\<forall>p. satisfies (\<lambda>v. Fin (p v)) c3
                  = (p (y_' b) \<le> l1 * p (x0_' b) + u0 * p (x1_' b) - u0 * l1))
         \<and> (\<forall>p. p (x0_' b) = l0 \<and> p (x1_' b) = l1 \<and> p (y_' b) = l0 * l1
                  \<longrightarrow> eval_lf (f_' c0) (\<lambda>v. Fin (p v)) = ub_c c0)
         \<and> (\<forall>p. p (x0_' b) = u0 \<and> p (x1_' b) = u1 \<and> p (y_' b) = u0 * u1
                  \<longrightarrow> eval_lf (f_' c1) (\<lambda>v. Fin (p v)) = ub_c c1)
         \<and> (\<forall>p. p (x0_' b) = l0 \<and> p (x1_' b) = u1 \<and> p (y_' b) = l0 * u1
                  \<longrightarrow> eval_lf (f_' c2) (\<lambda>v. Fin (p v)) = ub_c c2)
         \<and> (\<forall>p. p (x0_' b) = u0 \<and> p (x1_' b) = l1 \<and> p (y_' b) = u0 * l1
                  \<longrightarrow> eval_lf (f_' c3) (\<lambda>v. Fin (p v)) = ub_c c3)
         \<and> length (cons_' rel')
             = length (cons_' rel) + length (x2Funs_' h) + 4 * length (x0x1Funs_' h)"
proof -
  let ?m = "length (cons_' rel) + length (x2Funs_' h)"
  let ?n = "?m + 4 * k"
  let ?sq = "map (sq_con rel) (x2Funs_' h)"
  let ?bl = "concat (map (bil_cons rel) (x0x1Funs_' h))"
  from r have h': "x0x1Funs_' h' = number_bils ?m (x0x1Funs_' h)"
    and rel': "cons_' rel' = (cons_' rel @ ?sq) @ ?bl"
    by (auto simp: relax_eq split: if_splits)
  have len: "length (cons_' rel') = ?m + 4 * length (x0x1Funs_' h)"
    by (simp add: rel')
  have nth: "cons_' rel' ! (?n + i) = bil_con rel b (int i)" if "i < 4" for i
  proof -
    have "cons_' rel' ! (?m + (4 * k + i)) = ?bl ! (4 * k + i)"
      unfolding rel' by (simp add: nth_append)
    also have "\<dots> = bil_cons rel b ! i"
      using concat_bil_cons_nth [OF k that] b by simp
    also have "\<dots> = bil_con rel b (int i)"
      using that by (auto simp: bil_cons_def less_Suc_eq numeral_eq_Suc)
    finally show ?thesis by (simp add: add.assoc)
  qed
  have inb: "?n + i < length (cons_' rel')" if "i < 4" for i
    using that k by (simp add: len)
  have d: "deref rel' (Some (?n + i)) = Inr (?n + i, bil_con rel b (int i))" if "i < 4" for i
    using inb [OF that] nth [OF that] by (simp add: deref_def)
  note fin = bil_con_finite [OF l0 u0 l1 u1]
  show ?thesis
    apply (rule exI [of _ ?n])
    apply (rule exI [of _ "bil_con rel b 0"])
    apply (rule exI [of _ "bil_con rel b 1"])
    apply (rule exI [of _ "bil_con rel b 2"])
    apply (rule exI [of _ "bil_con rel b 3"])
    apply (intro conjI allI impI)
    subgoal using number_bils_nth [OF k, of ?m] b by (simp add: h')
    subgoal using d [of 0] by simp
    subgoal using d [of 1] by simp
    subgoal using d [of 2] by simp
    subgoal using d [of 3] by simp
    subgoal by (simp add: fin)
    subgoal by (simp add: fin)
    subgoal by (simp add: fin)
    subgoal by (simp add: fin)
    subgoal for p by (auto simp: satisfies_def fin algebra_simps)
    subgoal for p by (auto simp: satisfies_def fin algebra_simps)
    subgoal for p by (auto simp: satisfies_def fin algebra_simps)
    subgoal for p by (auto simp: satisfies_def fin algebra_simps)
    subgoal for p by (simp add: fin)
    subgoal for p by (simp add: fin)
    subgoal for p by (simp add: fin)
    subgoal for p by (simp add: fin)
    subgoal by (simp add: len)
    done
qed



text \<open>
  The second scenario of the spec: \<open>y = x0 x1\<close> on the unit box. The four constraints are
  tight at their corners, and the point \<open>(1/2, 1/2, 1/4)\<close> of the surface satisfies them.
\<close>

theorem relax_McCormick_witness:
  "\<exists>h' rel'.
     relax_' \<lparr>p_' = \<lparr>vars_' = (\<lambda>v. \<lparr>lb_' = Fin 0, ub_' = Fin 1\<rparr>), cons_' = []\<rparr>,
              x2Funs_' = [], x0x1Funs_' = [new_LinBil 0 1 2], modProb_' = True, modRel_' = True\<rparr>
            \<lparr>vars_' = (\<lambda>v. \<lparr>lb_' = Fin 0, ub_' = Fin 1\<rparr>), cons_' = []\<rparr> = Inr (h', rel')
   \<and> (\<exists>n c0 c1 c2 c3.
         deref rel' (Some n) = Inr (n, c0)
       \<and> deref rel' (Some (n + 1)) = Inr (n + 1, c1)
       \<and> deref rel' (Some (n + 2)) = Inr (n + 2, c2)
       \<and> deref rel' (Some (n + 3)) = Inr (n + 3, c3)
       \<and> eval_lf (f_' c0) (\<lambda>v. Fin 0) = ub_c c0
       \<and> eval_lf (f_' c1) (\<lambda>v. Fin 1) = ub_c c1
       \<and> eval_lf (f_' c2) (\<lambda>v. Fin (if v = 1 then 1 else 0)) = ub_c c2
       \<and> eval_lf (f_' c3) (\<lambda>v. Fin (if v = 0 then 1 else 0)) = ub_c c3
       \<and> satisfies (\<lambda>v. Fin (if v = 2 then 1 / 4 else 1 / 2)) c0
       \<and> satisfies (\<lambda>v. Fin (if v = 2 then 1 / 4 else 1 / 2)) c1
       \<and> satisfies (\<lambda>v. Fin (if v = 2 then 1 / 4 else 1 / 2)) c2
       \<and> satisfies (\<lambda>v. Fin (if v = 2 then 1 / 4 else 1 / 2)) c3)"
  (is "\<exists>h' rel'. relax_' ?h ?rel = Inr (h', rel') \<and> ?C rel'")
proof -
  obtain h' rel' where r: "relax_' ?h ?rel = Inr (h', rel')"
    by (simp add: relax_eq sq_ok_def)
  have k: "0 < length (x0x1Funs_' ?h)" by simp
  have b: "x0x1Funs_' ?h ! 0 = \<lparr>x0_' = 0, x1_' = 1, y_' = 2, c0_' = None, c1_' = None,
                                  c2_' = None, c3_' = None\<rparr>"
    by (simp add: new_LinBil_def)
  have l0: "getLb ?rel (x0_' \<lparr>x0_' = 0, x1_' = 1, y_' = 2, c0_' = None, c1_' = None,
                                  c2_' = None, c3_' = None\<rparr>) = Fin 0"
   and u0: "getUb ?rel (x0_' \<lparr>x0_' = 0, x1_' = 1, y_' = 2, c0_' = None, c1_' = None,
                                  c2_' = None, c3_' = None\<rparr>) = Fin 1"
   and l1: "getLb ?rel (x1_' \<lparr>x0_' = 0, x1_' = 1, y_' = 2, c0_' = None, c1_' = None,
                                  c2_' = None, c3_' = None\<rparr>) = Fin 0"
   and u1: "getUb ?rel (x1_' \<lparr>x0_' = 0, x1_' = 1, y_' = 2, c0_' = None, c1_' = None,
                                  c2_' = None, c3_' = None\<rparr>) = Fin 1"
    by (simp_all add: getLb_def getUb_def)
  from relax_McCormick [OF r k b l0 u0 l1 u1]
  obtain n c0 c1 c2 c3 where d:
    "deref rel' (Some n) = Inr (n, c0)" "deref rel' (Some (n + 1)) = Inr (n + 1, c1)"
    "deref rel' (Some (n + 2)) = Inr (n + 2, c2)" "deref rel' (Some (n + 3)) = Inr (n + 3, c3)"
    and sat:
    "\<forall>p. satisfies (\<lambda>v. Fin (p v)) c0 = (0 * p 0 + 0 * p 1 - 0 * 0 \<le> p 2)"
    "\<forall>p. satisfies (\<lambda>v. Fin (p v)) c1 = (1 * p 0 + 1 * p 1 - 1 * 1 \<le> p 2)"
    "\<forall>p. satisfies (\<lambda>v. Fin (p v)) c2 = (p 2 \<le> 1 * p 0 + 0 * p 1 - 0 * 1)"
    "\<forall>p. satisfies (\<lambda>v. Fin (p v)) c3 = (p 2 \<le> 0 * p 0 + 1 * p 1 - 1 * 0)"
    and tight:
    "\<forall>p. p 0 = 0 \<and> p 1 = 0 \<and> p 2 = 0 * 0 \<longrightarrow> eval_lf (f_' c0) (\<lambda>v. Fin (p v)) = ub_c c0"
    "\<forall>p. p 0 = 1 \<and> p 1 = 1 \<and> p 2 = 1 * 1 \<longrightarrow> eval_lf (f_' c1) (\<lambda>v. Fin (p v)) = ub_c c1"
    "\<forall>p. p 0 = 0 \<and> p 1 = 1 \<and> p 2 = 0 * 1 \<longrightarrow> eval_lf (f_' c2) (\<lambda>v. Fin (p v)) = ub_c c2"
    "\<forall>p. p 0 = 1 \<and> p 1 = 0 \<and> p 2 = 1 * 0 \<longrightarrow> eval_lf (f_' c3) (\<lambda>v. Fin (p v)) = ub_c c3"
    unfolding LinBil.simps by (elim exE conjE) (rule that; assumption)
  have "?C rel'"
    apply (rule exI [of _ n], rule exI [of _ c0], rule exI [of _ c1], rule exI [of _ c2],
          rule exI [of _ c3])
    apply (intro conjI d)
    subgoal using tight(1) [THEN spec, of "\<lambda>v. 0"] by simp
    subgoal using tight(2) [THEN spec, of "\<lambda>v. 1"] by simp
    subgoal using tight(3) [THEN spec, of "\<lambda>v. if v = 1 then 1 else 0"] by simp
    subgoal using tight(4) [THEN spec, of "\<lambda>v. if v = 0 then 1 else 0"] by simp
    subgoal using sat(1) [THEN spec, of "\<lambda>v. if v = 2 then 1 / 4 else 1 / 2"] by simp
    subgoal using sat(2) [THEN spec, of "\<lambda>v. if v = 2 then 1 / 4 else 1 / 2"] by simp
    subgoal using sat(3) [THEN spec, of "\<lambda>v. if v = 2 then 1 / 4 else 1 / 2"] by simp
    subgoal using sat(4) [THEN spec, of "\<lambda>v. if v = 2 then 1 / 4 else 1 / 2"] by simp
    done
  with r show ?thesis by blast
qed


subsection \<open>The secant of a square term\<close>

lemma sq_con_finite:
  assumes "getLb rel (x_sq s) = Fin l" "getUb rel (x_sq s) = Fin u" "sq_ok rel s"
  shows "lb_c (sq_con rel s) = NInf"
    and "ub_c (sq_con rel s) = Fin (- (u * l))"
    and "eval_lf (f_' (sq_con rel s)) (\<lambda>v. Fin (p v))
           = (if \<bar>u + l\<bar> > 1 / 100000 then Fin (p (y_sq s) - (u + l) * p (x_sq s))
              else Fin (p (y_sq s)))"
  using assms
  by (auto simp: sq_con_def sq_ok_def getNewSqLf_'_def addTerm_def aTol_'_def Let_def algebra_simps)

text \<open>
  Claim C6, as amended. When \<^verbatim>\<open>relax_\<close> succeeds, every square term \<open>s\<close> of the handler
  whose operand has the finite bounds \<open>[l, u]\<close> in the relaxation is given one new constraint
  of the relaxation, without lower bound, recorded as its \<^verbatim>\<open>oeCon\<close>. A point satisfies it
  exactly when \<open>y - (l + u) x \<le> - l u\<close> if \<open>|l + u|\<close> is above \<^verbatim>\<open>aTol_\<close>, and exactly when
  \<open>y \<le> - l u\<close> otherwise: then the term of \<open>x\<close> is left out of the constraint.
\<close>

theorem relax_secant:
  assumes r: "relax_' h rel = Inr (h', rel')"
      and k: "k < length (x2Funs_' h)"
      and s: "x2Funs_' h ! k = s"
      and l: "getLb rel (x_sq s) = Fin l" and u: "getUb rel (x_sq s) = Fin u"
  shows "\<exists>n c.
           x2Funs_' h' ! k = s\<lparr>oeCon := Some n\<rparr>
         \<and> deref rel' (Some n) = Inr (n, c)
         \<and> lb_c c = NInf
         \<and> (\<forall>p. satisfies (\<lambda>v. Fin (p v)) c
                  = (if \<bar>l + u\<bar> > 1 / 100000
                     then p (y_sq s) - (l + u) * p (x_sq s) \<le> - (l * u)
                     else p (y_sq s) \<le> - (l * u)))
         \<and> length (cons_' rel')
             = length (cons_' rel) + length (x2Funs_' h) + 4 * length (x0x1Funs_' h)"
proof -
  let ?n = "length (cons_' rel) + k"
  let ?sq = "map (sq_con rel) (x2Funs_' h)"
  let ?bl = "concat (map (bil_cons rel) (x0x1Funs_' h))"
  from r have ok: "list_all (sq_ok rel) (x2Funs_' h)"
    and h': "x2Funs_' h' = number_sqrs (length (cons_' rel)) (x2Funs_' h)"
    and rel': "cons_' rel' = cons_' rel @ ?sq @ ?bl"
    by (auto simp: relax_eq split: if_splits)
  from ok k s have oks: "sq_ok rel s"
    by (auto simp: list_all_length)
  have nth: "cons_' rel' ! ?n = sq_con rel s"
    using k s by (simp add: rel' nth_append)
  have d: "deref rel' (Some ?n) = Inr (?n, sq_con rel s)"
    using k nth by (simp add: deref_def rel')
  note fin = sq_con_finite [OF l u oks]
  show ?thesis
    apply (rule exI [of _ ?n])
    apply (rule exI [of _ "sq_con rel s"])
    apply (intro conjI allI)
    subgoal using number_sqrs_nth [OF k, of "length (cons_' rel)"] s by (simp add: h')
    subgoal by (rule d)
    subgoal by (simp add: fin)
    subgoal for p by (auto simp: satisfies_def fin algebra_simps)
    subgoal by (simp add: rel')
    done
qed

text \<open>The first scenario of the spec: \<open>x\<close> in \<open>[-2, 3]\<close> gives the secant \<open>y - x \<le> 6\<close>.\<close>

theorem relax_secant_witness:
  "\<exists>h' rel'.
     relax_' \<lparr>p_' = \<lparr>vars_' = (\<lambda>v. \<lparr>lb_' = Fin (- 2), ub_' = Fin 3\<rparr>), cons_' = []\<rparr>,
              x2Funs_' = [\<lparr>x_sq = 0, y_sq = 1, oeCon = None\<rparr>], x0x1Funs_' = [],
              modProb_' = True, modRel_' = True\<rparr>
            \<lparr>vars_' = (\<lambda>v. \<lparr>lb_' = Fin (- 2), ub_' = Fin 3\<rparr>), cons_' = []\<rparr> = Inr (h', rel')
   \<and> (\<exists>n c. deref rel' (Some n) = Inr (n, c)
          \<and> satisfies (\<lambda>v. Fin (if v = 0 then 3 else 9)) c
          \<and> satisfies (\<lambda>v. Fin (if v = 0 then - 2 else 4)) c
          \<and> \<not> satisfies (\<lambda>v. Fin (if v = 0 then 0 else 7)) c)"
  (is "\<exists>h' rel'. relax_' ?h ?rel = Inr (h', rel') \<and> ?C rel'")
proof -
  obtain h' rel' where r: "relax_' ?h ?rel = Inr (h', rel')"
    by (simp add: relax_eq sq_ok_def getLb_def getUb_def)
  have k: "0 < length (x2Funs_' ?h)" by simp
  have s: "x2Funs_' ?h ! 0 = \<lparr>x_sq = 0, y_sq = 1, oeCon = None\<rparr>" by simp
  have l: "getLb ?rel (x_sq \<lparr>x_sq = 0, y_sq = 1, oeCon = None\<rparr>) = Fin (- 2)"
   and u: "getUb ?rel (x_sq \<lparr>x_sq = 0, y_sq = 1, oeCon = None\<rparr>) = Fin 3"
    by (simp_all add: getLb_def getUb_def)
  from relax_secant [OF r k s l u]
  obtain n c where d: "deref rel' (Some n) = Inr (n, c)"
    and sat: "\<forall>p. satisfies (\<lambda>v. Fin (p v)) c
                  = (if \<bar>- 2 + 3\<bar> > (1 / 100000 :: real)
                     then p 1 - (- 2 + 3) * p 0 \<le> - (- 2 * 3)
                     else p 1 \<le> - (- 2 * 3))"
    unfolding LinSqr.simps by (elim exE conjE) (rule that; assumption)
  have "?C rel'"
    apply (rule exI [of _ n], rule exI [of _ c])
    apply (intro conjI d)
    subgoal using sat [THEN spec, of "\<lambda>v. if v = 0 then 3 else 9"] by simp
    subgoal using sat [THEN spec, of "\<lambda>v. if v = 0 then - 2 else 4"] by simp
    subgoal using sat [THEN spec, of "\<lambda>v. if v = 0 then 0 else 7"] by simp
    done
  with r show ?thesis by blast
qed

text \<open>
  Claim C6 as stated fails for \<open>l = -1\<close> and \<open>u = 1.000005\<close>, where \<open>|l + u|\<close> is below
  \<^verbatim>\<open>aTol_\<close>: the constraint that is built is \<open>y \<le> 1.000005\<close>, and the point \<open>(u, u\<^sup>2)\<close>, which
  is on the line through \<open>(l, l\<^sup>2)\<close> and \<open>(u, u\<^sup>2)\<close>, does not satisfy it.
\<close>

theorem relax_secant_counterexample:
  "relax_' \<lparr>p_' = \<lparr>vars_' = (\<lambda>v. \<lparr>lb_' = Fin (- 1), ub_' = Fin (200001 / 200000)\<rparr>),
                   cons_' = []\<rparr>,
            x2Funs_' = [\<lparr>x_sq = 0, y_sq = 1, oeCon = None\<rparr>], x0x1Funs_' = [],
            modProb_' = True, modRel_' = True\<rparr>
          \<lparr>vars_' = (\<lambda>v. \<lparr>lb_' = Fin (- 1), ub_' = Fin (200001 / 200000)\<rparr>), cons_' = []\<rparr>
     = Inr (\<lparr>p_' = \<lparr>vars_' = (\<lambda>v. \<lparr>lb_' = Fin (- 1), ub_' = Fin (200001 / 200000)\<rparr>),
                     cons_' = []\<rparr>,
              x2Funs_' = [\<lparr>x_sq = 0, y_sq = 1, oeCon = Some 0\<rparr>], x0x1Funs_' = [],
              modProb_' = True, modRel_' = True\<rparr>,
            \<lparr>vars_' = (\<lambda>v. \<lparr>lb_' = Fin (- 1), ub_' = Fin (200001 / 200000)\<rparr>),
             cons_' = [\<lparr>f_' = [(1, Fin 1)], lb_c = NInf, ub_c = Fin (200001 / 200000)\<rparr>]\<rparr>)
   \<and> \<not> satisfies (\<lambda>v. Fin (if v = 0 then 200001 / 200000
                              else (200001 / 200000) * (200001 / 200000)))
         \<lparr>f_' = [(1, Fin 1)], lb_c = NInf, ub_c = Fin (200001 / 200000)\<rparr>
   \<and> (200001 / 200000) * (200001 / 200000) - (- 1 + 200001 / 200000) * (200001 / 200000)
       \<le> - (- 1 * (200001 / 200000 :: real))"
  by (simp add: relax_eq sq_ok_def sq_con_def getNewSqLf_'_def addTerm_def aTol_'_def
      getLb_def getUb_def satisfies_def Let_def)

subsection \<open>Failure of the envelope construction\<close>

text \<open>
  Claim C9, as amended. With finite operand bounds on every bilinear term, \<^verbatim>\<open>relax_\<close>
  succeeds exactly when every square term passes the assertion of \<^verbatim>\<open>getNewSqLf_\<close>, that
  is, when the lower bound of its operand is above \<open>-1e21\<close> and the upper bound below
  \<open>1e21\<close>; otherwise it fails with the failed assertion. In particular it fails when the
  lower bound of the operand of a square term is \<open>-\<infinity>\<close> or NaN, or its upper bound \<open>\<infinity>\<close> or NaN.
\<close>

theorem relax_fails_iff:
  assumes "\<And>b. b \<in> set (x0x1Funs_' h) \<Longrightarrow>
             \<exists>l0 u0 l1 u1. getLb rel (x0_' b) = Fin l0 \<and> getUb rel (x0_' b) = Fin u0
                          \<and> getLb rel (x1_' b) = Fin l1 \<and> getUb rel (x1_' b) = Fin u1"
  shows "((\<exists>r. relax_' h rel = Inr r)
           = (\<forall>s \<in> set (x2Funs_' h).
                Fin (- (10 ^ 21)) < getLb rel (x_sq s) \<and> getUb rel (x_sq s) < Fin (10 ^ 21)))
       \<and> (relax_' h rel = Inl AssertionFailed \<or> (\<exists>r. relax_' h rel = Inr r))
       \<and> ((\<exists>s \<in> set (x2Funs_' h). getLb rel (x_sq s) \<in> {NInf, NaN}
                                   \<or> getUb rel (x_sq s) \<in> {PInf, NaN})
            \<longrightarrow> relax_' h rel = Inl AssertionFailed)"
  by (auto simp: relax_eq list_all_iff sq_ok_def)

theorem relax_fails_iff_witness:
  "getLb \<lparr>vars_' = (\<lambda>v. \<lparr>lb_' = Fin (- 2), ub_' = Fin 3\<rparr>), cons_' = []\<rparr>
       (x0_' (new_LinBil 2 3 4)) = Fin (- 2)
   \<and> getUb \<lparr>vars_' = (\<lambda>v. \<lparr>lb_' = Fin (- 2), ub_' = Fin 3\<rparr>), cons_' = []\<rparr>
       (x0_' (new_LinBil 2 3 4)) = Fin 3
   \<and> getLb \<lparr>vars_' = (\<lambda>v. \<lparr>lb_' = Fin (- 2), ub_' = Fin 3\<rparr>), cons_' = []\<rparr>
       (x1_' (new_LinBil 2 3 4)) = Fin (- 2)
   \<and> getUb \<lparr>vars_' = (\<lambda>v. \<lparr>lb_' = Fin (- 2), ub_' = Fin 3\<rparr>), cons_' = []\<rparr>
       (x1_' (new_LinBil 2 3 4)) = Fin 3
   \<and> (\<exists>r. relax_' \<lparr>p_' = \<lparr>vars_' = (\<lambda>v. \<lparr>lb_' = Fin (- 2), ub_' = Fin 3\<rparr>), cons_' = []\<rparr>,
                    x2Funs_' = [\<lparr>x_sq = 0, y_sq = 1, oeCon = None\<rparr>],
                    x0x1Funs_' = [new_LinBil 2 3 4], modProb_' = True, modRel_' = True\<rparr>
                  \<lparr>vars_' = (\<lambda>v. \<lparr>lb_' = Fin (- 2), ub_' = Fin 3\<rparr>), cons_' = []\<rparr> = Inr r)
   \<and> relax_' \<lparr>p_' = \<lparr>vars_' = (\<lambda>v. \<lparr>lb_' = NInf, ub_' = Fin 3\<rparr>), cons_' = []\<rparr>,
                    x2Funs_' = [\<lparr>x_sq = 0, y_sq = 1, oeCon = None\<rparr>],
                    x0x1Funs_' = [], modProb_' = True, modRel_' = True\<rparr>
                  \<lparr>vars_' = (\<lambda>v. \<lparr>lb_' = NInf, ub_' = Fin 3\<rparr>), cons_' = []\<rparr>
       = Inl AssertionFailed"
proof -
  let ?rel = "\<lparr>vars_' = (\<lambda>v. \<lparr>lb_' = Fin (- 2), ub_' = Fin 3\<rparr>), cons_' = []\<rparr>"
  let ?h = "\<lparr>p_' = ?rel, x2Funs_' = [\<lparr>x_sq = 0, y_sq = 1, oeCon = None\<rparr>],
             x0x1Funs_' = [new_LinBil 2 3 4], modProb_' = True, modRel_' = True\<rparr>"
  let ?rel2 = "\<lparr>vars_' = (\<lambda>v. \<lparr>lb_' = NInf, ub_' = Fin 3\<rparr>), cons_' = []\<rparr>"
  let ?h2 = "\<lparr>p_' = ?rel2, x2Funs_' = [\<lparr>x_sq = 0, y_sq = 1, oeCon = None\<rparr>],
              x0x1Funs_' = [], modProb_' = True, modRel_' = True\<rparr>"
  have fin: "\<exists>l0 u0 l1 u1. getLb ?rel (x0_' b) = Fin l0 \<and> getUb ?rel (x0_' b) = Fin u0
                          \<and> getLb ?rel (x1_' b) = Fin l1 \<and> getUb ?rel (x1_' b) = Fin u1"
    if "b \<in> set (x0x1Funs_' ?h)" for b
    by (simp add: getLb_def getUb_def)
  have fin2: "\<exists>l0 u0 l1 u1. getLb ?rel2 (x0_' b) = Fin l0 \<and> getUb ?rel2 (x0_' b) = Fin u0
                          \<and> getLb ?rel2 (x1_' b) = Fin l1 \<and> getUb ?rel2 (x1_' b) = Fin u1"
    if "b \<in> set (x0x1Funs_' ?h2)" for b
    using that by simp
  have 1: "\<exists>r. relax_' ?h ?rel = Inr r"
    using relax_fails_iff [of ?h ?rel, OF fin] by (simp add: getLb_def getUb_def)
  have 2: "relax_' ?h2 ?rel2 = Inl AssertionFailed"
    using relax_fails_iff [of ?h2 ?rel2, OF fin2] by (simp add: getLb_def getUb_def)
  show ?thesis
    using 1 2 by (simp add: getLb_def getUb_def)
qed

text \<open>
  Claim C9 as stated fails for a square term whose operand has the finite bounds
  \<open>[-1e21, 0]\<close>: the construction fails.
\<close>

theorem relax_finite_counterexample:
  "getLb \<lparr>vars_' = (\<lambda>v. \<lparr>lb_' = Fin (- (10 ^ 21)), ub_' = Fin 0\<rparr>), cons_' = []\<rparr> 0
     = Fin (- (10 ^ 21))
   \<and> getUb \<lparr>vars_' = (\<lambda>v. \<lparr>lb_' = Fin (- (10 ^ 21)), ub_' = Fin 0\<rparr>), cons_' = []\<rparr> 0 = Fin 0
   \<and> relax_' \<lparr>p_' = \<lparr>vars_' = (\<lambda>v. \<lparr>lb_' = Fin (- (10 ^ 21)), ub_' = Fin 0\<rparr>), cons_' = []\<rparr>,
              x2Funs_' = [\<lparr>x_sq = 0, y_sq = 1, oeCon = None\<rparr>], x0x1Funs_' = [],
              modProb_' = True, modRel_' = True\<rparr>
            \<lparr>vars_' = (\<lambda>v. \<lparr>lb_' = Fin (- (10 ^ 21)), ub_' = Fin 0\<rparr>), cons_' = []\<rparr>
       = Inl AssertionFailed"
  by (simp add: relax_'_def getNewSqLf_'_def getLb_def getUb_def Let_def)

subsection \<open>Feasibility of a solution\<close>

lemma isFeasible_x2Funs_iff:
  "isFeasible_x2Funs ss (\<lambda>v. Fin (x v))
     = (\<forall>s \<in> set ss. \<bar>x (y_sq s) - x (x_sq s) * x (x_sq s)\<bar>
                        \<le> max (1 / 100000) (1 / 10000 * (\<bar>x (y_sq s)\<bar> + 1 / 1000000)))"
proof (induction ss)
  case Nil
  show ?case by simp
next
  case (Cons s ss)
  have pos: "0 < \<bar>x (y_sq s)\<bar> + 1 / 1000000"
    by linarith
  have "(\<bar>x (y_sq s) - x (x_sq s) * x (x_sq s)\<bar> / (\<bar>x (y_sq s)\<bar> + 1 / 1000000) > 1 / 10000)
          = (\<bar>x (y_sq s) - x (x_sq s) * x (x_sq s)\<bar> > 1 / 10000 * (\<bar>x (y_sq s)\<bar> + 1 / 1000000))"
    using pos by (simp add: pos_less_divide_eq)
  moreover have "\<bar>x (y_sq s)\<bar> + 1 / 1000000 \<noteq> 0"
    using pos by linarith
  ultimately show ?case
    using Cons.IH by (auto simp: Let_def max_def not_less not_le)
qed

lemma isFeasible_x0x1Funs_iff:
  "isFeasible_x0x1Funs bs (\<lambda>v. Fin (x v))
     = (\<forall>b \<in> set bs. \<bar>x (y_' b) - x (x0_' b) * x (x1_' b)\<bar>
                        \<le> max (1 / 100000) (1 / 10000 * \<bar>x (y_' b)\<bar>))"
proof (induction bs)
  case Nil
  show ?case by simp
next
  case (Cons b bs)
  have "\<bar>x (x0_' b) * x (x1_' b) - x (y_' b)\<bar> = \<bar>x (y_' b) - x (x0_' b) * x (x1_' b)\<bar>"
    by (rule abs_minus_commute)
  then show ?case
    using Cons.IH
    by (auto simp: isViolated_def Let_def aTol_'_def rTol_'_def max_def not_less not_le
        mult.commute)
qed

text \<open>
  Claim C4, as amended. \<^verbatim>\<open>isFeasible\<close> accepts a finite solution exactly when every square
  term passes \<open>|y - x\<^sup>2| \<le> max (1e-5, 1e-4 (|y| + 1e-6))\<close> and every bilinear term
  passes \<open>|y - x0 x1| \<le> max (1e-5, 1e-4 |y|)\<close>. Each loop of the model returns false at the
  first term that fails.
\<close>

theorem isFeasible_iff:
  "isFeasible h (\<lambda>v. Fin (x v))
     = ((\<forall>s \<in> set (x2Funs_' h).
           \<bar>x (y_sq s) - x (x_sq s) * x (x_sq s)\<bar>
             \<le> max (1 / 100000) (1 / 10000 * (\<bar>x (y_sq s)\<bar> + 1 / 1000000)))
        \<and> (\<forall>b \<in> set (x0x1Funs_' h).
              \<bar>x (y_' b) - x (x0_' b) * x (x1_' b)\<bar>
                \<le> max (1 / 100000) (1 / 10000 * \<bar>x (y_' b)\<bar>)))"
  by (simp add: isFeasible_def isFeasible_x2Funs_iff isFeasible_x0x1Funs_iff)

theorem isFeasible_iff_witness:
  "isFeasible \<lparr>p_' = \<lparr>vars_' = (\<lambda>v. \<lparr>lb_' = Fin 0, ub_' = Fin 2\<rparr>), cons_' = []\<rparr>,
               x2Funs_' = [\<lparr>x_sq = 0, y_sq = 1, oeCon = None\<rparr>],
               x0x1Funs_' = [new_LinBil 0 2 3], modProb_' = True, modRel_' = True\<rparr>
     (\<lambda>v. Fin (if v = 0 then 1 else if v = 1 then 1 else if v = 2 then 2 else 2))
   \<and> \<not> isFeasible \<lparr>p_' = \<lparr>vars_' = (\<lambda>v. \<lparr>lb_' = Fin 0, ub_' = Fin 2\<rparr>), cons_' = []\<rparr>,
               x2Funs_' = [\<lparr>x_sq = 0, y_sq = 1, oeCon = None\<rparr>],
               x0x1Funs_' = [new_LinBil 0 2 3], modProb_' = True, modRel_' = True\<rparr>
     (\<lambda>v. Fin (if v = 0 then 1 else if v = 1 then 1 else if v = 2 then 2 else 3))"
  using isFeasible_iff [of "\<lparr>p_' = \<lparr>vars_' = (\<lambda>v. \<lparr>lb_' = Fin 0, ub_' = Fin 2\<rparr>), cons_' = []\<rparr>,
               x2Funs_' = [\<lparr>x_sq = 0, y_sq = 1, oeCon = None\<rparr>],
               x0x1Funs_' = [new_LinBil 0 2 3], modProb_' = True, modRel_' = True\<rparr>"
          "\<lambda>v. if v = 0 then 1 else if v = 1 then 1 else if v = 2 then 2 else 2"]
        isFeasible_iff [of "\<lparr>p_' = \<lparr>vars_' = (\<lambda>v. \<lparr>lb_' = Fin 0, ub_' = Fin 2\<rparr>), cons_' = []\<rparr>,
               x2Funs_' = [\<lparr>x_sq = 0, y_sq = 1, oeCon = None\<rparr>],
               x0x1Funs_' = [new_LinBil 0 2 3], modProb_' = True, modRel_' = True\<rparr>"
          "\<lambda>v. if v = 0 then 1 else if v = 1 then 1 else if v = 2 then 2 else 3"]
  by (simp add: new_LinBil_def)

text \<open>
  Claim C4 as stated fails for the square term at \<open>x = 1\<close>, \<open>y = 0.99990000995\<close>: the solution
  is accepted although \<open>|y - x\<^sup>2|\<close> exceeds \<open>max (1e-5, 1e-4 |y|)\<close>.
\<close>

theorem isFeasible_counterexample:
  "isFeasible \<lparr>p_' = \<lparr>vars_' = (\<lambda>v. \<lparr>lb_' = Fin 0, ub_' = Fin 2\<rparr>), cons_' = []\<rparr>,
               x2Funs_' = [\<lparr>x_sq = 0, y_sq = 1, oeCon = None\<rparr>], x0x1Funs_' = [],
               modProb_' = True, modRel_' = True\<rparr>
     (\<lambda>v. Fin (if v = 0 then 1 else 99990000995 / 100000000000))
   \<and> \<not> \<bar>99990000995 / 100000000000 - 1 * 1\<bar>
         \<le> max (1 / 100000) (1 / 10000 * \<bar>99990000995 / 100000000000 :: real\<bar>)"
  by (simp add: isFeasible_def Let_def)

subsection \<open>Separation\<close>

lemma findLinPt_yl:
  "findLinPt_' xval yval = Some (xl, yl) \<Longrightarrow> yl = xl * xl"
  by (auto simp: findLinPt_'_def Let_def split: option.splits)

lemma cut_valid:
  assumes "Fin 2 * xl * xval - yval - xl * xl > Fin (1 / 100000)"
      and "p y = p x * p x"
  shows "satisfies (\<lambda>v. Fin (p v))
           \<lparr>f_' = addTerm (addTerm [] x (Fin 2 * xl)) y (Fin (- 1)), lb_c = NInf,
             ub_c = xl * xl\<rparr>"
proof (cases xl)
  case (Fin r)
  have "0 \<le> (p x - r) * (p x - r)" by simp
  then have "2 * r * p x - p x * p x \<le> r * r"
    by (simp add: algebra_simps)
  with Fin assms(2) show ?thesis
    by (auto simp: satisfies_def addTerm_def)
next
  case NaN
  with assms(1) show ?thesis by (simp add: minus_double_def)
next
  case NInf
  with assms(1) show ?thesis
    by (cases xval; cases yval) (auto simp: minus_double_def split: if_splits)
next
  case PInf
  with assms(1) show ?thesis
    by (cases xval; cases yval) (auto simp: minus_double_def split: if_splits)
qed

lemma separate_LinSqr_valid:
  assumes "separate_LinSqr s x rel status = Some (rel', status')"
      and "p (y_sq s) = p (x_sq s) * p (x_sq s)"
  shows "vars_' rel' = vars_' rel
       \<and> (\<exists>cs. cons_' rel' = cons_' rel @ cs
               \<and> (\<forall>c \<in> set cs. satisfies (\<lambda>v. Fin (p v)) c))"
  using assms cut_valid [of _ "x (x_sq s)" "x (y_sq s)" p "y_sq s" "x_sq s"]
  by (auto simp: separate_LinSqr_def addCut_'_def newConstraint_def Let_def
      dest!: findLinPt_yl split: if_splits option.splits)

lemma separate_x2Funs_valid:
  assumes "separate_x2Funs ss x rel status = Some (rel', status')"
      and "\<forall>s \<in> set ss. p (y_sq s) = p (x_sq s) * p (x_sq s)"
  shows "vars_' rel' = vars_' rel
       \<and> (\<exists>cs. cons_' rel' = cons_' rel @ cs
               \<and> (\<forall>c \<in> set cs. satisfies (\<lambda>v. Fin (p v)) c))"
  using assms
proof (induction ss arbitrary: rel status)
  case Nil
  then show ?case by simp
next
  case (Cons s ss)
  from Cons.prems(1) obtain rel1 status1 where
    1: "separate_LinSqr s x rel status = Some (rel1, status1)"
    and 2: "separate_x2Funs ss x rel1 status1 = Some (rel', status')"
    by (auto split: option.splits)
  from separate_LinSqr_valid [OF 1, of p] Cons.prems(2)
  obtain cs1 where v1: "vars_' rel1 = vars_' rel" and c1: "cons_' rel1 = cons_' rel @ cs1"
    and s1: "\<forall>c \<in> set cs1. satisfies (\<lambda>v. Fin (p v)) c"
    by auto
  from Cons.IH [OF 2] Cons.prems(2)
  obtain cs2 where v2: "vars_' rel' = vars_' rel1" and c2: "cons_' rel' = cons_' rel1 @ cs2"
    and s2: "\<forall>c \<in> set cs2. satisfies (\<lambda>v. Fin (p v)) c"
    by auto
  have "cons_' rel' = cons_' rel @ (cs1 @ cs2)"
    by (simp add: c1 c2)
  moreover have "\<forall>c \<in> set (cs1 @ cs2). satisfies (\<lambda>v. Fin (p v)) c"
    using s1 s2 by auto
  ultimately show ?case
    using v1 v2 by metis
qed






text \<open>
  Claim C10. Whenever \<^verbatim>\<open>separate\<close> returns, it has only appended constraints to the
  relaxation, and every appended constraint is satisfied by every finite point that has
  \<open>y = x\<^sup>2\<close> for every square term of the handler.
\<close>

theorem separate_cuts_valid:
  assumes "separate h x rel status = Some (rel', status')"
      and "\<forall>s \<in> set (x2Funs_' h). p (y_sq s) = p (x_sq s) * p (x_sq s)"
  shows "take (length (cons_' rel)) (cons_' rel') = cons_' rel
       \<and> (\<forall>c \<in> set (drop (length (cons_' rel)) (cons_' rel')). satisfies (\<lambda>v. Fin (p v)) c)"
  using separate_x2Funs_valid [of "x2Funs_' h" x rel status rel' status' p] assms
  by (auto simp: separate_def)

text \<open>
  The cut appended at \<open>xv = 2.00011\<close>, \<open>yv = 4\<close> is satisfied by the points \<open>(3, 9)\<close> and
  \<open>(2, 4)\<close> of the parabola and cuts off the solution.
\<close>

theorem separate_cuts_valid_witness:
  "separate \<lparr>p_' = \<lparr>vars_' = (\<lambda>v. \<lparr>lb_' = Fin 0, ub_' = Fin 9\<rparr>), cons_' = []\<rparr>,
             x2Funs_' = [\<lparr>x_sq = 0, y_sq = 1, oeCon = None\<rparr>], x0x1Funs_' = [],
             modProb_' = True, modRel_' = True\<rparr>
       (\<lambda>v. Fin (if v = 0 then 200011 / 100000 else 4))
       \<lparr>vars_' = (\<lambda>v. \<lparr>lb_' = Fin 0, ub_' = Fin 9\<rparr>), cons_' = []\<rparr> SepaContinue
     = Some (\<lparr>vars_' = (\<lambda>v. \<lparr>lb_' = Fin 0, ub_' = Fin 9\<rparr>),
              cons_' = [\<lparr>f_' = [(0, Fin (50000649209 / 12500000000)), (1, Fin (- 1))],
                        lb_c = NInf,
                        ub_c = Fin (2500064921321472325681 / 625000000000000000000)\<rparr>]\<rparr>,
             SepaResolve)
   \<and> satisfies (\<lambda>v. Fin (if v = 0 then 3 else 9))
       \<lparr>f_' = [(0, Fin (50000649209 / 12500000000)), (1, Fin (- 1))], lb_c = NInf,
         ub_c = Fin (2500064921321472325681 / 625000000000000000000)\<rparr>
   \<and> satisfies (\<lambda>v. Fin (if v = 0 then 2 else 4))
       \<lparr>f_' = [(0, Fin (50000649209 / 12500000000)), (1, Fin (- 1))], lb_c = NInf,
         ub_c = Fin (2500064921321472325681 / 625000000000000000000)\<rparr>
   \<and> \<not> satisfies (\<lambda>v. Fin (if v = 0 then 200011 / 100000 else 4))
       \<lparr>f_' = [(0, Fin (50000649209 / 12500000000)), (1, Fin (- 1))], lb_c = NInf,
         ub_c = Fin (2500064921321472325681 / 625000000000000000000)\<rparr>"
proof -
  let ?h = "\<lparr>p_' = \<lparr>vars_' = (\<lambda>v. \<lparr>lb_' = Fin 0, ub_' = Fin 9\<rparr>), cons_' = []\<rparr>,
             x2Funs_' = [\<lparr>x_sq = 0, y_sq = 1, oeCon = None\<rparr>], x0x1Funs_' = [],
             modProb_' = True, modRel_' = True\<rparr>"
  let ?x = "\<lambda>v::nat. Fin (if v = 0 then 200011 / 100000 else 4)"
  let ?rel = "\<lparr>vars_' = (\<lambda>v. \<lparr>lb_' = Fin 0, ub_' = Fin 9\<rparr>), cons_' = []\<rparr>"
  let ?c = "\<lparr>f_' = [(0, Fin (50000649209 / 12500000000)), (1, Fin (- 1))], lb_c = NInf,
         ub_c = Fin (2500064921321472325681 / 625000000000000000000)\<rparr>"
  have s: "separate ?h ?x ?rel SepaContinue = Some (?rel\<lparr>cons_' := [?c]\<rparr>, SepaResolve)"
    by (simp add: separate_def separate_LinSqr_def findLinPt_'_def findLinPt_while.simps
        addCut_'_def newConstraint_def addTerm_def alfa_def errlim_def Let_def)
  have p1: "\<forall>s \<in> set (x2Funs_' ?h).
              (\<lambda>v::nat. if v = 0 then 3 else 9 :: real) (y_sq s)
                = (\<lambda>v::nat. if v = 0 then 3 else 9) (x_sq s) * (\<lambda>v::nat. if v = 0 then 3 else 9) (x_sq s)"
    by simp
  have p2: "\<forall>s \<in> set (x2Funs_' ?h).
              (\<lambda>v::nat. if v = 0 then 2 else 4 :: real) (y_sq s)
                = (\<lambda>v::nat. if v = 0 then 2 else 4) (x_sq s) * (\<lambda>v::nat. if v = 0 then 2 else 4) (x_sq s)"
    by simp
  have 1: "satisfies (\<lambda>v. Fin (if v = 0 then 3 else 9)) ?c"
    using separate_cuts_valid [OF s p1] by simp
  have 2: "satisfies (\<lambda>v. Fin (if v = 0 then 2 else 4)) ?c"
    using separate_cuts_valid [OF s p2] by simp
  have 3: "\<not> satisfies ?x ?c"
    by (simp add: satisfies_def)
  show ?thesis
    using s 1 2 3 by simp
qed

subsection \<open>Bound propagation of a square term in the node presolve\<close>






lemma updatePBounds_node_fst:
  "fst (updatePBounds_node v lb ub mod_rel st) = - 1
   \<or> fst (updatePBounds_node v lb ub mod_rel st) = 0"
  by (simp add: updatePBounds_node_def)






subsection \<open>The loop of the node presolve\<close>

text \<open>
  The loop does nothing when \<^verbatim>\<open>changed\<close> is false on entry, which it always is. So the node
  presolve always returns, never reports infeasibility, and changes neither a bound of a
  variable nor the modifications of the problem; only the envelope constraints of the
  relaxation may be replaced.
\<close>

lemma upSqCon_vars:
  "upSqCon_' con x y (rel, r_mods) = Inr (rel', r_mods') \<Longrightarrow> vars_' rel' = vars_' rel"
  by (auto simp: upSqCon_'_def changeConstraint_def Let_def split: sum.splits if_splits)

lemma upBilCon_block_vars:
  "upBilCon_block b con test type l0 u0 l1 u1 (rel, r_mods) = Inr (rel', r_mods')
   \<Longrightarrow> vars_' rel' = vars_' rel"
  by (auto simp: upBilCon_block_def changeConstraint_def split: sum.splits if_splits)

lemma upBilCon_vars:
  "upBilCon_' b (rel, r_mods) = Inr (rel', r_mods') \<Longrightarrow> vars_' rel' = vars_' rel"
  unfolding upBilCon_'_def Let_def
  by (auto split: sum.splits dest!: upBilCon_block_vars)

lemma presolveNode_upSqCon_vars:
  "presolveNode_upSqCon ss (rel, r_mods) = Inr (rel', r_mods') \<Longrightarrow> vars_' rel' = vars_' rel"
proof (induction ss arbitrary: rel r_mods)
  case Nil
  then show ?case by simp
next
  case (Cons s ss)
  then show ?case
    by (auto split: sum.splits dest!: upSqCon_vars)
qed

lemma presolveNode_upBilCon_vars:
  "presolveNode_upBilCon bs (rel, r_mods) = Inr (rel', r_mods') \<Longrightarrow> vars_' rel' = vars_' rel"
proof (induction bs arbitrary: rel r_mods)
  case Nil
  then show ?case by simp
next
  case (Cons b bs)
  then show ?case
    by (auto split: sum.splits dest!: upBilCon_vars)
qed

lemma presolveNode_bounds_unchanged:
  assumes "presolveNode ops h rel p_mods r_mods = Some (Inr (is_inf, st))"
  shows "\<not> is_inf \<and> n_p st = p_' h \<and> n_p_mods st = p_mods \<and> vars_' (n_rel st) = vars_' rel"
  using assms
  by (auto simp: presolveNode_def presolveNode_while_False split: sum.splits
      dest!: presolveNode_upSqCon_vars presolveNode_upBilCon_vars)

lemma presolveNode_returns:
  "presolveNode ops h rel p_mods r_mods \<noteq> None"
  by (auto simp: presolveNode_def presolveNode_while_False split: sum.splits)

text \<open>
  Claim C1 does not hold of the code. For the square term \<open>y = x\<^sup>2\<close> with \<open>x\<close> in \<open>[1, 2]\<close> and
  \<open>y\<close> in \<open>[0, 10]\<close>, \<^verbatim>\<open>presolveNode\<close> returns false and leaves every bound and both vectors of
  modifications as they were, although one run of the body of its loop tightens \<open>y\<close> to
  \<open>[1, 4]\<close> and sets \<^verbatim>\<open>changed\<close>: the loop tests \<^verbatim>\<open>changed\<close>, which starts false, so its body
  never runs. Moreover \<^verbatim>\<open>updatePBounds_\<close> leaves \<^verbatim>\<open>*changed\<close> alone when it lowers an upper
  bound only.
\<close>

theorem presolveNode_never_sweeps:
  "presolveNode spec_ops
     \<lparr>p_' = \<lparr>vars_' = (\<lambda>v. if v = 0 then \<lparr>lb_' = Fin 1, ub_' = Fin 2\<rparr>
                             else \<lparr>lb_' = Fin 0, ub_' = Fin 10\<rparr>), cons_' = []\<rparr>,
      x2Funs_' = [\<lparr>x_sq = 0, y_sq = 1, oeCon = Some 0\<rparr>], x0x1Funs_' = [],
      modProb_' = True, modRel_' = True\<rparr>
     \<lparr>vars_' = (\<lambda>v. if v = 0 then \<lparr>lb_' = Fin 1, ub_' = Fin 2\<rparr>
                      else \<lparr>lb_' = Fin 0, ub_' = Fin 10\<rparr>),
      cons_' = [\<lparr>f_' = [(1, Fin 1), (0, Fin (- 3))], lb_c = NInf, ub_c = Fin (- 2)\<rparr>]\<rparr>
     [] []
   = Some (Inr (False,
       \<lparr>n_p = \<lparr>vars_' = (\<lambda>v. if v = 0 then \<lparr>lb_' = Fin 1, ub_' = Fin 2\<rparr>
                              else \<lparr>lb_' = Fin 0, ub_' = Fin 10\<rparr>), cons_' = []\<rparr>,
        n_rel = \<lparr>vars_' = (\<lambda>v. if v = 0 then \<lparr>lb_' = Fin 1, ub_' = Fin 2\<rparr>
                                else \<lparr>lb_' = Fin 0, ub_' = Fin 10\<rparr>),
                 cons_' = [\<lparr>f_' = [(1, Fin 1), (0, Fin (- 3))], lb_c = NInf,
                            ub_c = Fin (- 2)\<rparr>]\<rparr>,
        n_changed = True, n_p_mods = [], n_r_mods = []\<rparr>))
   \<and> (\<exists>st1. presolveNode_body spec_ops
         \<lparr>p_' = \<lparr>vars_' = (\<lambda>v. if v = 0 then \<lparr>lb_' = Fin 1, ub_' = Fin 2\<rparr>
                                 else \<lparr>lb_' = Fin 0, ub_' = Fin 10\<rparr>), cons_' = []\<rparr>,
          x2Funs_' = [\<lparr>x_sq = 0, y_sq = 1, oeCon = Some 0\<rparr>], x0x1Funs_' = [],
          modProb_' = True, modRel_' = True\<rparr>
         False
         \<lparr>n_p = \<lparr>vars_' = (\<lambda>v. if v = 0 then \<lparr>lb_' = Fin 1, ub_' = Fin 2\<rparr>
                                else \<lparr>lb_' = Fin 0, ub_' = Fin 10\<rparr>), cons_' = []\<rparr>,
          n_rel = \<lparr>vars_' = (\<lambda>v. if v = 0 then \<lparr>lb_' = Fin 1, ub_' = Fin 2\<rparr>
                                  else \<lparr>lb_' = Fin 0, ub_' = Fin 10\<rparr>),
                   cons_' = [\<lparr>f_' = [(1, Fin 1), (0, Fin (- 3))], lb_c = NInf,
                              ub_c = Fin (- 2)\<rparr>]\<rparr>,
          n_changed = True, n_p_mods = [], n_r_mods = []\<rparr>
        = Inr (False, True, st1)
        \<and> getLb (n_p st1) 1 = Fin 1 \<and> getUb (n_p st1) 1 = Fin 4
        \<and> n_p_mods st1 = [ModVarBound2 (VarBoundMod2 1 (Fin 1) (Fin 4))])
   \<and> (\<exists>st1. updatePBounds_node 1 (Fin 1) (Fin 4) True
         \<lparr>n_p = \<lparr>vars_' = (\<lambda>v. \<lparr>lb_' = Fin 1, ub_' = Fin 10\<rparr>), cons_' = []\<rparr>,
          n_rel = \<lparr>vars_' = (\<lambda>v. \<lparr>lb_' = Fin 1, ub_' = Fin 10\<rparr>), cons_' = []\<rparr>,
          n_changed = False, n_p_mods = [], n_r_mods = []\<rparr>
        = (0, st1)
        \<and> getUb (n_p st1) 1 = Fin 4 \<and> n_changed st1 = False)"
  apply (intro conjI)
  subgoal
    by (simp add: presolveNode_def presolveNode_while_False upSqCon_'_def deref_def getWeight_def
        eval_defs)
  subgoal
    by (simp add: presolveNode_body_def eval_defs)
  subgoal
    by (simp add: eval_defs)
  done

subsection \<open>Backward propagation of a bilinear term\<close>

text \<open>
  Whatever \<^verbatim>\<open>BoundsOnDiv\<close> computes, both versions of \<^verbatim>\<open>propBilBnds_\<close> only ever apply it to
  a denominator whose two ends are the same.
\<close>

lemma propBilBnds_degenerate_only:
  assumes "BoundsOnProduct ops = BoundsOnProduct ops'"
      and "\<And>a b c. BoundsOnDiv ops a b c c = BoundsOnDiv ops' a b c c"
  shows "propBilBnds_' ops b pc = propBilBnds_' ops' b pc"
    and "propBilBnds_node ops b mod_rel st = propBilBnds_node ops' b mod_rel st"
  by (simp_all add: propBilBnds_'_def propBilBnds_node_def assms Let_def cong: if_cong)

text \<open>
  Claim C2 does not hold of the code. For \<open>y = x0 x1\<close> with \<open>x0\<close> in \<open>[1, 2]\<close>, \<open>x1\<close> in \<open>[0, 10]\<close>
  and \<open>y\<close> in \<open>[2, 4]\<close>, the interval quotient of \<open>y\<close> by \<open>x0\<close> is \<open>[1, 4]\<close>, but both versions
  of \<^verbatim>\<open>propBilBnds_\<close> divide by \<open>[1, 1]\<close> and tighten \<open>x1\<close> to \<open>[2, 4]\<close>, which excludes the
  point \<open>x0 = 2\<close>, \<open>x1 = 1\<close>, \<open>y = 2\<close>. The version of the node presolve then divides by the lower
  bound of \<open>x0\<close> again and tightens \<open>x0\<close>, not with the quotient of \<open>y\<close> by \<open>x1\<close>, to \<open>[2, 2]\<close>.
\<close>

theorem propBilBnds_degenerate_quotient:
  "(\<exists>p1. propBilBnds_' spec_ops (new_LinBil 0 1 2)
            (\<lparr>vars_' = (\<lambda>v. if v = 0 then \<lparr>lb_' = Fin 1, ub_' = Fin 2\<rparr>
                            else if v = 1 then \<lparr>lb_' = Fin 0, ub_' = Fin 10\<rparr>
                            else \<lparr>lb_' = Fin 2, ub_' = Fin 4\<rparr>), cons_' = []\<rparr>, False)
          = (False, p1, True)
        \<and> getLb p1 1 = Fin 2 \<and> getUb p1 1 = Fin 4
        \<and> getLb p1 0 = Fin 1 \<and> getUb p1 0 = Fin 2)
   \<and> (\<exists>st1. propBilBnds_node spec_ops (new_LinBil 0 1 2) True
            \<lparr>n_p = \<lparr>vars_' = (\<lambda>v. if v = 0 then \<lparr>lb_' = Fin 1, ub_' = Fin 2\<rparr>
                            else if v = 1 then \<lparr>lb_' = Fin 0, ub_' = Fin 10\<rparr>
                            else \<lparr>lb_' = Fin 2, ub_' = Fin 4\<rparr>), cons_' = []\<rparr>,
             n_rel = \<lparr>vars_' = (\<lambda>v. if v = 0 then \<lparr>lb_' = Fin 1, ub_' = Fin 2\<rparr>
                            else if v = 1 then \<lparr>lb_' = Fin 0, ub_' = Fin 10\<rparr>
                            else \<lparr>lb_' = Fin 2, ub_' = Fin 4\<rparr>), cons_' = []\<rparr>,
             n_changed = False, n_p_mods = [], n_r_mods = []\<rparr>
          = (False, st1)
        \<and> getLb (n_p st1) 1 = Fin 2 \<and> getUb (n_p st1) 1 = Fin 4
        \<and> getLb (n_p st1) 0 = Fin 2 \<and> getUb (n_p st1) 0 = Fin 2)
   \<and> BoundsOnDiv spec_ops (Fin 2) (Fin 4) (Fin 1) (Fin 2) = (Fin 1, Fin 4)
   \<and> BoundsOnDiv spec_ops (Fin 2) (Fin 4) (Fin 0) (Fin 10) = (NInf, PInf)"
  apply (intro conjI)
  subgoal
    by (simp add: propBilBnds_'_def updatePBounds_'_def new_LinBil_def eval_defs)
  subgoal
    by (simp add: propBilBnds_node_def new_LinBil_def eval_defs)
  subgoal
    by (simp add: eval_defs)
  subgoal
    by (simp add: eval_defs)
  done

subsection \<open>Branches and their modifications\<close>






end
